theory Spec2Isabelle
  imports Main "HOL-Library.Sublist" "HOL-Library.AList" "HOL-Library.Word"
begin

section \<open>Python strings\<close>

text \<open>
  A Python \<open>str\<close> is a sequence of Unicode code points, and \<open>len\<close>, slicing,
  \<open>startswith\<close>, \<open>endswith\<close> and \<open>in\<close> all count code points. The plugin's
  notices are Chinese, so a string is modelled as the list of its code points; an ASCII
  literal of the source is written \<open>ascii ''...''\<close>.
\<close>

type_synonym ustr = "nat list"

definition ascii :: "string \<Rightarrow> ustr" where
  "ascii s = map of_char s"

text \<open>The code points for which \<open>str.isspace\<close> holds; \<open>str.strip()\<close> removes them.\<close>

definition is_space :: "nat \<Rightarrow> bool" where
  "is_space c = ((0x09 \<le> c \<and> c \<le> 0x0D) \<or> (0x1C \<le> c \<and> c \<le> 0x20) \<or> c = 0x85 \<or> c = 0xA0
     \<or> c = 0x1680 \<or> (0x2000 \<le> c \<and> c \<le> 0x200A) \<or> c = 0x2028 \<or> c = 0x2029
     \<or> c = 0x202F \<or> c = 0x205F \<or> c = 0x3000)"

definition lstrip :: "ustr \<Rightarrow> ustr" where
  "lstrip s = dropWhile is_space s"

definition rstrip :: "ustr \<Rightarrow> ustr" where
  "rstrip s = rev (dropWhile is_space (rev s))"

definition strip :: "ustr \<Rightarrow> ustr" where
  "strip s = rstrip (lstrip s)"

text \<open>\<open>s.rstrip('/')\<close>: trailing occurrences of the one character are removed.\<close>

definition rstrip_char :: "nat \<Rightarrow> ustr \<Rightarrow> ustr" where
  "rstrip_char c s = rev (dropWhile (\<lambda>x. x = c) (rev s))"

text \<open>
  \<open>str.lower()\<close>. On ASCII it maps \<open>A..Z\<close> to \<open>a..z\<close> and nothing else. Its
  mapping of the other code points is Unicode's table, which is not part of the
  repository: it is the parameter \<open>tbl\<close>, given the code points before, the code
  point and the code points after (the lower case of a capital sigma depends on its
  neighbours), and returning the code points that replace it.
\<close>

type_synonym lower_table = "ustr \<Rightarrow> nat \<Rightarrow> ustr \<Rightarrow> ustr"

definition ascii_lower :: "nat \<Rightarrow> nat" where
  "ascii_lower c = (if 65 \<le> c \<and> c \<le> 90 then c + 32 else c)"

fun lower_from :: "lower_table \<Rightarrow> ustr \<Rightarrow> ustr \<Rightarrow> ustr" where
  "lower_from tbl seen [] = []"
| "lower_from tbl seen (c # rest) =
     (if c < 128 then [ascii_lower c] else tbl seen c rest) @ lower_from tbl (seen @ [c]) rest"

definition lower :: "lower_table \<Rightarrow> ustr \<Rightarrow> ustr" where
  "lower tbl s = lower_from tbl [] s"

text \<open>\<open>str(n)\<close> of a non-negative integer, and of any integer: the decimal digits.\<close>

fun str_of_nat :: "nat \<Rightarrow> ustr" where
  "str_of_nat n = (if n < 10 then [48 + n] else str_of_nat (n div 10) @ [48 + n mod 10])"

declare str_of_nat.simps [simp del]

definition str_of_int :: "int \<Rightarrow> ustr" where
  "str_of_int i = (if i < 0 then 45 # str_of_nat (nat (- i)) else str_of_nat (nat i))"

section \<open>Model directory: capability tags\<close>

text \<open>The three tags of the source, \<open>"\<dots>"\<close> literals of two Chinese characters each
  (text, vision, reasoning).\<close>

definition feature_text :: ustr where
  "feature_text = [0x6587, 0x672C]"

definition feature_vision :: ustr where
  "feature_vision = [0x89C6, 0x89C9]"

definition feature_reasoning :: ustr where
  "feature_reasoning = [0x601D, 0x8003]"

definition infer_model_features :: "lower_table \<Rightarrow> ustr \<Rightarrow> ustr list" where
  "infer_model_features tbl model_id =
     (let lowered = lower tbl model_id;
          features = [feature_text];
          features = (if sublist (ascii ''vision'') lowered \<or> sublist (ascii ''gpt-4o'') lowered
                      then features @ [feature_vision] else features);
          features = (if prefix (ascii ''o1'') lowered \<or> sublist (ascii ''reason'') lowered
                      then features @ [feature_reasoning] else features)
      in features)"

section \<open>JSON values and Python dictionaries\<close>

text \<open>
  A JSON document as \<open>json.load\<close> returns it: \<open>None\<close>, \<open>bool\<close>, \<open>int\<close>,
  \<open>float\<close> (its IEEE 754 bits), \<open>str\<close>, \<open>list\<close> and \<open>dict\<close>. A \<open>dict\<close> is the
  list of its items in insertion order; \<open>d[k] = v\<close> is \<open>AList.update k v\<close> (the item
  is replaced where it stands, or added last) and \<open>d.get(k)\<close> is \<open>map_of d k\<close>.
\<close>

datatype json =
    JNull
  | JBool bool
  | JInt int
  | JFloat "64 word"
  | JStr ustr
  | JArr "json list"
  | JObj "(ustr \<times> json) list"

text \<open>\<open>x[key]\<close> with a string key raises unless \<open>x\<close> is a dict holding the key.\<close>

fun subscript_key :: "json \<Rightarrow> ustr \<Rightarrow> json option" where
  "subscript_key (JObj items) k = map_of items k"
| "subscript_key _ k = None"

text \<open>\<open>x[0]\<close>: the first element of a list, the first character of a string; it raises
  on an empty one, on a dict (whose keys are strings) and on everything else.\<close>

fun subscript_0 :: "json \<Rightarrow> json option" where
  "subscript_0 (JArr (x # xs)) = Some x"
| "subscript_0 (JStr (c # cs)) = Some (JStr [c])"
| "subscript_0 _ = None"

section \<open>The world outside: files, HTTP, configuration, log\<close>

text \<open>The exceptions the plugin meets: \<open>httpx.HTTPStatusError\<close>, the
  \<open>AttributeError\<close> of reading a setting the configuration does not have, and any
  other.\<close>

datatype exn = HTTPStatusError | AttributeError | OtherException

text \<open>A path holds no file, a file that cannot be read, or a file with its text.\<close>

datatype file_state = Unreadable | Content ustr

type_synonym files = "ustr \<rightharpoonup> file_state"

record response =
  status_code :: nat
  reason_phrase :: ustr
  body_text :: ustr
  body_json :: "json option"
  body_bytes :: "8 word list"
  content_type :: "ustr option"

datatype http_outcome = Raised | Responded response

text \<open>An attempted write either succeeds, or raises and leaves something at the path.\<close>

datatype write_outcome = Written | WriteRaised "file_state option"

text \<open>
  A setting of the driver's configuration: \<open>config.name\<close> raises \<open>AttributeError\<close>
  when the configuration has no such setting, and gives its value otherwise. (Only
  \<open>prompt_file\<close> is read with \<open>getattr(config, "prompt_file", None)\<close>, which gives
  \<open>None\<close> for both.)
\<close>

datatype 'a setting = Unset | Configured 'a

fun read_setting :: "'a setting \<Rightarrow> exn + 'a" where
  "read_setting Unset = Inl AttributeError"
| "read_setting (Configured v) = Inr v"

text \<open>
  What the plugin reads from its surroundings: the driver's configuration (the API key
  may be \<open>None\<close>; a base URL and a model that are set are strings), the working
  directory, Unicode's lower-case table, \<open>json.loads\<close> and \<open>json.dumps\<close> (\<open>None\<close>
  where parsing raises), the remote ends of the shared HTTP client (the outcome of a
  request is a function of the request), and whether \<open>os.makedirs\<close> and a write go
  through.
\<close>

record env =
  openai_api_key :: "ustr option setting"
  openai_base_url :: "ustr setting"
  openai_model :: "ustr setting"
  prompt_file :: "ustr option"
  cwd :: ustr
  lower_tbl :: lower_table
  json_loads :: "ustr \<Rightarrow> json option"
  json_dumps :: "json \<Rightarrow> ustr"
  http_post :: "ustr \<Rightarrow> (ustr \<times> ustr) list \<Rightarrow> json \<Rightarrow> http_outcome"
  http_get :: "ustr \<Rightarrow> http_outcome"
  makedirs_ok :: "ustr \<Rightarrow> bool"
  file_write :: "ustr \<Rightarrow> ustr \<Rightarrow> write_outcome"

datatype level = Warning | Error | Exception

datatype log_arg = ArgStr ustr | ArgNat nat | ArgExc

datatype matcher = Chat | ModelCmd | Tome

text \<open>What a call does besides returning: requests sent, calls of the logger (the
  format and the arguments as they are passed; what the logger writes from them is not
  modelled), directories made, writes attempted, and \<open>matcher.finish(message)\<close>.\<close>

datatype event =
    HttpPost ustr "(ustr \<times> ustr) list" json
  | HttpGet ustr
  | Log level ustr "log_arg list"
  | MakeDirs ustr
  | WriteJson ustr ustr
  | Finish matcher ustr

text \<open>An inbound message is a list of segments, each a type and a dict of strings.\<close>

record segment =
  seg_type :: ustr
  seg_data :: "ustr \<rightharpoonup> ustr"

record message_event =
  user_id :: ustr
  group_id :: "int option"
  message :: "segment list"

text \<open>\<open>os.path.isabs\<close> and \<open>os.path.join\<close> of two components, on POSIX.\<close>

definition isabs :: "ustr \<Rightarrow> bool" where
  "isabs p = prefix (ascii ''/'') p"

definition path_join :: "ustr \<Rightarrow> ustr \<Rightarrow> ustr" where
  "path_join a b =
     (if prefix (ascii ''/'') b then b
      else if a = [] \<or> suffix (ascii ''/'') a then a @ b
      else a @ ascii ''/'' @ b)"

definition MAX_CONTEXT_MESSAGES :: nat where
  "MAX_CONTEXT_MESSAGES = 20"

definition CONTEXT_DIR :: "env \<Rightarrow> ustr" where
  "CONTEXT_DIR env = path_join (path_join (cwd env) (ascii ''data'')) (ascii ''openai'')"

definition USER_SETTINGS_DIR :: "env \<Rightarrow> ustr" where
  "USER_SETTINGS_DIR env = path_join (CONTEXT_DIR env) (ascii ''users'')"

section \<open>Persistent store\<close>

definition read_text :: "files \<Rightarrow> ustr \<Rightarrow> exn + ustr" where
  "read_text fs path =
     (case fs path of
        None \<Rightarrow> Inl OtherException
      | Some Unreadable \<Rightarrow> Inl OtherException
      | Some (Content t) \<Rightarrow> Inr t)"

definition read_json :: "env \<Rightarrow> files \<Rightarrow> ustr \<Rightarrow> exn + json" where
  "read_json env fs path =
     (case read_text fs path of
        Inl e \<Rightarrow> Inl e
      | Inr t \<Rightarrow> (case json_loads env t of None \<Rightarrow> Inl OtherException | Some j \<Rightarrow> Inr j))"

definition write_json :: "env \<Rightarrow> files \<Rightarrow> ustr \<Rightarrow> json \<Rightarrow> exn option \<times> files" where
  "write_json env fs path data =
     (case file_write env path (json_dumps env data) of
        Written \<Rightarrow> (None, fs(path \<mapsto> Content (json_dumps env data)))
      | WriteRaised left \<Rightarrow> (Some OtherException, fs(path := left)))"

section \<open>Prompt loader\<close>

definition get_prompt_file_path :: "env \<Rightarrow> ustr option" where
  "get_prompt_file_path env =
     (case prompt_file env of
        None \<Rightarrow> None
      | Some p \<Rightarrow>
          if p = [] then None
          else if isabs p then Some p
          else Some (path_join (cwd env) p))"

definition load_prompt_message :: "env \<Rightarrow> files \<Rightarrow> json option \<times> event list" where
  "load_prompt_message env fs =
     (case get_prompt_file_path env of
        None \<Rightarrow> (None, [])
      | Some path \<Rightarrow>
          if fs path = None
          then (None, [Log Warning (ascii ''Prompt file not found: %s'') [ArgStr path]])
          else (case read_text fs path of
                  Inl e \<Rightarrow> (None, [Log Exception (ascii ''Failed to load prompt file: %s'') [ArgExc]])
                | Inr t \<Rightarrow>
                    (let content = strip t
                     in if content = [] then (None, [])
                        else (Some (JObj [(ascii ''role'', JStr (ascii ''system'')),
                                          (ascii ''content'', JStr content)]), []))))"

section \<open>Session resolver, settings and history\<close>

definition get_session_id :: "message_event \<Rightarrow> ustr" where
  "get_session_id event =
     (case group_id event of
        None \<Rightarrow> user_id event
      | Some g \<Rightarrow>
          if g \<noteq> 0 then str_of_int g @ ascii ''_'' @ user_id event
          else user_id event)"

definition get_user_settings_path :: "env \<Rightarrow> message_event \<Rightarrow> ustr" where
  "get_user_settings_path env event =
     path_join (USER_SETTINGS_DIR env) (user_id event @ ascii ''.json'')"

definition load_user_settings ::
  "env \<Rightarrow> files \<Rightarrow> message_event \<Rightarrow> (ustr \<times> json) list \<times> event list" where
  "load_user_settings env fs event =
     (let path = get_user_settings_path env event
      in if fs path = None then ([], [])
         else (case read_json env fs path of
                 Inl e \<Rightarrow> ([], [Log Exception (ascii ''Failed to load user settings: %s'') [ArgExc]])
               | Inr (JObj items) \<Rightarrow> (items, [])
               | Inr _ \<Rightarrow>
                   ([], [Log Warning (ascii ''Invalid user settings format in %s'') [ArgStr path]])))"

definition save_user_settings ::
  "env \<Rightarrow> files \<Rightarrow> message_event \<Rightarrow> (ustr \<times> json) list \<Rightarrow> exn option \<times> files \<times> event list" where
  "save_user_settings env fs event settings =
     (if \<not> makedirs_ok env (USER_SETTINGS_DIR env)
      then (Some OtherException, fs, [MakeDirs (USER_SETTINGS_DIR env)])
      else (let path = get_user_settings_path env event
            in case write_json env fs path (JObj settings) of
                 (None, fs') \<Rightarrow>
                   (None, fs', [MakeDirs (USER_SETTINGS_DIR env),
                                WriteJson path (json_dumps env (JObj settings))])
               | (Some e, fs') \<Rightarrow>
                   (None, fs', [MakeDirs (USER_SETTINGS_DIR env),
                                WriteJson path (json_dumps env (JObj settings)),
                                Log Exception (ascii ''Failed to save user settings: %s'') [ArgExc]])))"

text \<open>The result is \<open>Inl\<close> where \<open>config.openai_model\<close> raises.\<close>

definition get_user_model ::
  "env \<Rightarrow> files \<Rightarrow> message_event \<Rightarrow> (exn + ustr) \<times> event list" where
  "get_user_model env fs event =
     (let (settings, evs) = load_user_settings env fs event
      in case map_of settings (ascii ''model'') of
           Some (JStr model) \<Rightarrow>
             if model \<noteq> [] then (Inr model, evs) else (read_setting (openai_model env), evs)
         | _ \<Rightarrow> (read_setting (openai_model env), evs))"

definition set_user_model ::
  "env \<Rightarrow> files \<Rightarrow> message_event \<Rightarrow> ustr \<Rightarrow> exn option \<times> files \<times> event list" where
  "set_user_model env fs event model =
     (let (settings, evs) = load_user_settings env fs event;
          settings = AList.update (ascii ''model'') (JStr model) settings;
          (exc, fs', evs') = save_user_settings env fs event settings
      in (exc, fs', evs @ evs'))"

definition get_context_path :: "env \<Rightarrow> message_event \<Rightarrow> ustr" where
  "get_context_path env event =
     path_join (CONTEXT_DIR env) (get_session_id event @ ascii ''.json'')"

definition load_context :: "env \<Rightarrow> files \<Rightarrow> message_event \<Rightarrow> json list \<times> event list" where
  "load_context env fs event =
     (let path = get_context_path env event
      in if fs path = None then ([], [])
         else (case read_json env fs path of
                 Inl e \<Rightarrow> ([], [Log Exception (ascii ''Failed to load context: %s'') [ArgExc]])
               | Inr (JArr turns) \<Rightarrow> (turns, [])
               | Inr _ \<Rightarrow> ([], [Log Warning (ascii ''Invalid context format in %s'') [ArgStr path]])))"

definition save_context ::
  "env \<Rightarrow> files \<Rightarrow> message_event \<Rightarrow> json list \<Rightarrow> exn option \<times> files \<times> event list" where
  "save_context env fs event messages =
     (if \<not> makedirs_ok env (CONTEXT_DIR env)
      then (Some OtherException, fs, [MakeDirs (CONTEXT_DIR env)])
      else (let path = get_context_path env event
            in case write_json env fs path (JArr messages) of
                 (None, fs') \<Rightarrow>
                   (None, fs', [MakeDirs (CONTEXT_DIR env),
                                WriteJson path (json_dumps env (JArr messages))])
               | (Some e, fs') \<Rightarrow>
                   (None, fs', [MakeDirs (CONTEXT_DIR env),
                                WriteJson path (json_dumps env (JArr messages)),
                                Log Exception (ascii ''Failed to save context: %s'') [ArgExc]])))"

section \<open>Completion client\<close>

definition missing_key_notice :: ustr where
  "missing_key_notice = [0x7F3A, 0x5C11, 32] @ ascii ''OPENAI_API_KEY'' @ [32, 0x914D, 0x7F6E, 0x3002]"

definition upstream_error_notice :: "nat \<Rightarrow> ustr" where
  "upstream_error_notice code =
     [0x4E0A, 0x6E38, 0x8FD4, 0x56DE, 0x9519, 0x8BEF, 32] @ str_of_nat code
       @ [0xFF0C, 0x8BF7, 0x7A0D, 0x540E, 0x518D, 0x8BD5, 0x3002]"

definition request_failed_notice :: ustr where
  "request_failed_notice =
     [0x8BF7, 0x6C42, 32] @ ascii ''OpenAI''
       @ [32, 0x5931, 0x8D25, 0xFF0C, 0x8BF7, 0x7A0D, 0x540E, 0x518D, 0x8BD5, 0x3002]"

text \<open>\<open>resp.raise_for_status()\<close> raises unless the status is 2xx.\<close>

definition is_success :: "response \<Rightarrow> bool" where
  "is_success resp = (200 \<le> status_code resp \<and> status_code resp \<le> 299)"

text \<open>\<open>data["choices"][0]["message"]["content"].strip()\<close>; \<open>None\<close> where a subscript
  raises or the content is not a string.\<close>

definition reply_of_json :: "json \<Rightarrow> ustr option" where
  "reply_of_json data =
     (case subscript_key data (ascii ''choices'') of
        None \<Rightarrow> None
      | Some choices \<Rightarrow>
          (case subscript_0 choices of
             None \<Rightarrow> None
           | Some choice \<Rightarrow>
               (case subscript_key choice (ascii ''message'') of
                  None \<Rightarrow> None
                | Some msg \<Rightarrow>
                    (case subscript_key msg (ascii ''content'') of
                       Some (JStr content) \<Rightarrow> Some (strip content)
                     | _ \<Rightarrow> None))))"

text \<open>The URL, the headers and the JSON body of the one request.\<close>

definition completion_url :: "ustr \<Rightarrow> ustr" where
  "completion_url base_url = rstrip_char 47 base_url @ ascii ''/chat/completions''"

definition completion_headers :: "ustr \<Rightarrow> (ustr \<times> ustr) list" where
  "completion_headers api_key = [(ascii ''Authorization'', ascii ''Bearer '' @ api_key)]"

definition completion_payload :: "ustr \<Rightarrow> json list \<Rightarrow> json" where
  "completion_payload model messages =
     JObj [(ascii ''model'', JStr model),
           (ascii ''messages'', JArr messages),
           (ascii ''temperature'', JFloat 0x3FE6666666666666)]"

text \<open>\<open>_get_openai_config\<close> reads the three settings in turn; the first one absent
  raises.\<close>

definition get_openai_config :: "env \<Rightarrow> exn + (ustr option \<times> ustr \<times> ustr)" where
  "get_openai_config env =
     (case read_setting (openai_api_key env) of
        Inl e \<Rightarrow> Inl e
      | Inr api_key \<Rightarrow>
          (case read_setting (openai_base_url env) of
             Inl e \<Rightarrow> Inl e
           | Inr base_url \<Rightarrow>
               (case read_setting (openai_model env) of
                  Inl e \<Rightarrow> Inl e
                | Inr model \<Rightarrow> Inr (api_key, base_url, model))))"

text \<open>The result is \<open>Inl\<close> where an exception escapes the function: the call of
  \<open>_get_openai_config\<close> stands before the \<open>try\<close>. Every exception inside the \<open>try\<close>
  is caught and becomes a notice.\<close>

definition call_openai :: "env \<Rightarrow> json list \<Rightarrow> ustr \<Rightarrow> (exn + ustr) \<times> event list" where
  "call_openai env messages model =
     (case get_openai_config env of
        Inl e \<Rightarrow> (Inl e, [])
      | Inr (None, base_url, default_model) \<Rightarrow> (Inr missing_key_notice, [])
      | Inr (Some api_key, base_url, default_model) \<Rightarrow>
          if api_key = [] then (Inr missing_key_notice, [])
          else
            (let url = completion_url base_url;
                 headers = completion_headers api_key;
                 payload = completion_payload model messages;
                 failed = (Inr request_failed_notice,
                           [HttpPost url headers payload,
                            Log Exception (ascii ''OpenAI request failed: %s'') [ArgExc]])
             in case http_post env url headers payload of
                  Raised \<Rightarrow> failed
                | Responded resp \<Rightarrow>
                    if \<not> is_success resp
                    then (let body = body_text resp;
                              body = (if length body > 1000 then take 1000 body @ ascii ''...''
                                      else body)
                          in (Inr (upstream_error_notice (status_code resp)),
                              [HttpPost url headers payload,
                               Log Error (ascii ''OpenAI request failed: %s %s; body=%s'')
                                 [ArgNat (status_code resp), ArgStr (reason_phrase resp),
                                  ArgStr body]]))
                    else (case body_json resp of
                            None \<Rightarrow> failed
                          | Some data \<Rightarrow>
                              (case reply_of_json data of
                                 None \<Rightarrow> failed
                               | Some content \<Rightarrow>
                                   (Inr content, [HttpPost url headers payload])))))"

section \<open>Multimodal message assembler\<close>

definition infer_image_mime :: "lower_table \<Rightarrow> ustr \<Rightarrow> ustr" where
  "infer_image_mime tbl file_value =
     (let lowered = lower tbl file_value
      in if suffix (ascii ''.jpg'') lowered \<or> suffix (ascii ''.jpeg'') lowered
         then ascii ''image/jpeg''
         else if suffix (ascii ''.gif'') lowered then ascii ''image/gif''
         else if suffix (ascii ''.webp'') lowered then ascii ''image/webp''
         else ascii ''image/png'')"

definition normalize_image_data_url :: "lower_table \<Rightarrow> ustr \<Rightarrow> ustr \<Rightarrow> ustr option \<Rightarrow> ustr" where
  "normalize_image_data_url tbl file_value base64_value mime =
     (if prefix (ascii ''data:image/'') base64_value then base64_value
      else (let mime_value = (case mime of
                                None \<Rightarrow> infer_image_mime tbl file_value
                              | Some m \<Rightarrow> if m \<noteq> [] then m else infer_image_mime tbl file_value)
            in ascii ''data:'' @ mime_value @ ascii '';base64,'' @ base64_value))"

text \<open>\<open>base64.b64encode(...).decode("ascii")\<close>: the standard alphabet, padded with
  \<open>=\<close>.\<close>

definition b64_alphabet :: ustr where
  "b64_alphabet = ascii ''ABCDEFGHIJKLMNOPQRSTUVWXYZabcdefghijklmnopqrstuvwxyz0123456789+/''"

definition b64_digit :: "nat \<Rightarrow> nat" where
  "b64_digit n = b64_alphabet ! (n mod 64)"

fun b64encode :: "8 word list \<Rightarrow> ustr" where
  "b64encode [] = []"
| "b64encode [a] =
     [b64_digit (unat a div 4), b64_digit (unat a mod 4 * 16), 61, 61]"
| "b64encode [a, b] =
     [b64_digit (unat a div 4), b64_digit (unat a mod 4 * 16 + unat b div 16),
      b64_digit (unat b mod 16 * 4), 61]"
| "b64encode (a # b # c # rest) =
     [b64_digit (unat a div 4), b64_digit (unat a mod 4 * 16 + unat b div 16),
      b64_digit (unat b mod 16 * 4 + unat c div 64), b64_digit (unat c mod 64)]
     @ b64encode rest"

text \<open>The result is \<open>Inl\<close> where the request or \<open>raise_for_status\<close> raises. The
  content type is the header up to its first \<open>;\<close>, stripped.\<close>

definition fetch_image_base64 :: "env \<Rightarrow> ustr \<Rightarrow> exn + (ustr \<times> ustr option)" where
  "fetch_image_base64 env url =
     (case http_get env url of
        Raised \<Rightarrow> Inl OtherException
      | Responded resp \<Rightarrow>
          if \<not> is_success resp then Inl HTTPStatusError
          else (let header = (case content_type resp of None \<Rightarrow> [] | Some h \<Rightarrow> h);
                    ctype = strip (takeWhile (\<lambda>c. c \<noteq> 59) header);
                    encoded = b64encode (body_bytes resp)
                in Inr (encoded, if ctype \<noteq> [] then Some ctype else None)))"

text \<open>A content part is a dict tagged by its \<open>"type"\<close>: \<open>{"type": "text", "text": t}\<close>
  or \<open>{"type": "image_url", "image_url": {"url": u}}\<close>.\<close>

datatype part = TextPart ustr | ImagePart ustr

fun json_of_part :: "part \<Rightarrow> json" where
  "json_of_part (TextPart t) =
     JObj [(ascii ''type'', JStr (ascii ''text'')), (ascii ''text'', JStr t)]"
| "json_of_part (ImagePart u) =
     JObj [(ascii ''type'', JStr (ascii ''image_url'')),
           (ascii ''image_url'', JObj [(ascii ''url'', JStr u)])]"

text \<open>\<open>segment.data.get(key, "") or ""\<close>.\<close>

definition data_get :: "segment \<Rightarrow> ustr \<Rightarrow> ustr" where
  "data_get seg key = (case seg_data seg key of None \<Rightarrow> [] | Some v \<Rightarrow> v)"

definition build_image_part :: "env \<Rightarrow> segment \<Rightarrow> part option \<times> event list" where
  "build_image_part env seg =
     (let file_value = data_get seg (ascii ''file'');
          base64_value = data_get seg (ascii ''base64'');
          base64_value = (if base64_value = [] \<and> prefix (ascii ''base64://'') file_value
                          then drop (length (ascii ''base64://'')) file_value
                          else base64_value)
      in if base64_value \<noteq> []
         then (Some (ImagePart (normalize_image_data_url (lower_tbl env) file_value base64_value None)),
               [])
         else (let url_value = data_get seg (ascii ''url'')
               in if url_value = [] then (None, [])
                  else (case fetch_image_base64 env url_value of
                          Inl e \<Rightarrow>
                            (None, [HttpGet url_value,
                                    Log Warning (ascii ''Failed to fetch image url %s: %s'')
                                      [ArgStr url_value, ArgExc]])
                        | Inr (fetched_base64, mime) \<Rightarrow>
                            if fetched_base64 = [] then (None, [HttpGet url_value])
                            else (Some (ImagePart (normalize_image_data_url (lower_tbl env)
                                                     url_value fetched_base64 mime)),
                                  [HttpGet url_value]))))"

text \<open>The closure \<open>_flush_text\<close> on the two lists it shares with the loop.\<close>

definition flush_text :: "part list \<times> ustr list \<Rightarrow> part list \<times> ustr list" where
  "flush_text st =
     (case st of (parts, text_buffer) \<Rightarrow>
        if text_buffer = [] then (parts, text_buffer)
        else (let t = strip (concat text_buffer)
              in if t \<noteq> [] then (parts @ [TextPart t], []) else (parts, [])))"

text \<open>The loop over the segments, on \<open>parts\<close>, \<open>text_buffer\<close> and the events so far.\<close>

fun scan_segments ::
  "env \<Rightarrow> segment list \<Rightarrow> part list \<Rightarrow> ustr list \<Rightarrow> event list
     \<Rightarrow> part list \<times> ustr list \<times> event list" where
  "scan_segments env [] parts text_buffer evs = (parts, text_buffer, evs)"
| "scan_segments env (seg # rest) parts text_buffer evs =
     (if seg_type seg = ascii ''text''
      then scan_segments env rest parts (text_buffer @ [data_get seg (ascii ''text'')]) evs
      else if seg_type seg \<noteq> ascii ''image''
      then scan_segments env rest parts text_buffer evs
      else (case flush_text (parts, text_buffer) of (parts', text_buffer') \<Rightarrow>
              (case build_image_part env seg of
                 (None, evs') \<Rightarrow> scan_segments env rest parts' text_buffer' (evs @ evs')
               | (Some image_part, evs') \<Rightarrow>
                   scan_segments env rest (parts' @ [image_part]) text_buffer' (evs @ evs'))))"

text \<open>The parts the assembler ends with: the loop, then the last flush.\<close>

definition assemble_parts :: "env \<Rightarrow> segment list \<Rightarrow> part list \<times> event list" where
  "assemble_parts env msg =
     (case scan_segments env msg [] [] [] of (parts, text_buffer, evs) \<Rightarrow>
        (fst (flush_text (parts, text_buffer)), evs))"

definition user_turn :: "json \<Rightarrow> json" where
  "user_turn content = JObj [(ascii ''role'', JStr (ascii ''user'')), (ascii ''content'', content)]"

definition build_user_message :: "env \<Rightarrow> segment list \<Rightarrow> json option \<times> event list" where
  "build_user_message env msg =
     (case assemble_parts env msg of (parts, evs) \<Rightarrow>
        (case parts of
           [] \<Rightarrow> (None, evs)
         | [TextPart t] \<Rightarrow> (Some (user_turn (JStr t)), evs)
         | _ \<Rightarrow> (Some (user_turn (JArr (map json_of_part parts))), evs)))"

definition build_messages ::
  "env \<Rightarrow> files \<Rightarrow> json list \<Rightarrow> json \<Rightarrow> json list \<times> event list" where
  "build_messages env fs history user_message =
     (case load_prompt_message env fs of
        (None, evs) \<Rightarrow> (history @ [user_message], evs)
      | (Some prompt_msg, evs) \<Rightarrow> ([prompt_msg] @ history @ [user_message], evs))"

section \<open>Message handlers\<close>

definition usage_notice :: ustr where
  "usage_notice =
     [0x8BF7, 0x63D0, 0x4F9B, 0x5185, 0x5BB9, 0x3002, 0x7528, 0x6CD5, 58, 32]
       @ ascii ''/chat '' @ [0x4F60, 0x597D]"

definition assistant_turn :: "ustr \<Rightarrow> json" where
  "assistant_turn reply =
     JObj [(ascii ''role'', JStr (ascii ''assistant'')), (ascii ''content'', JStr reply)]"

text \<open>The two appends and the slice \<open>history[-MAX_CONTEXT_MESSAGES:]\<close> of both handlers
  (\<open>appendAndTrim\<close> in the specification).\<close>

definition append_and_trim :: "json list \<Rightarrow> json \<Rightarrow> ustr \<Rightarrow> json list" where
  "append_and_trim history user_message reply =
     (let history = history @ [user_message];
          history = history @ [assistant_turn reply]
      in if length history > MAX_CONTEXT_MESSAGES
         then drop (length history - MAX_CONTEXT_MESSAGES) history
         else history)"

text \<open>What a handler leaves: the exception that escaped it (if any), the files, and
  what it did.\<close>

record outcome =
  escaped :: "exn option"
  store :: files
  trace :: "event list"

text \<open>Both handlers from \<open>_load_context\<close> on, once the user message is built.\<close>

definition respond ::
  "matcher \<Rightarrow> env \<Rightarrow> files \<Rightarrow> message_event \<Rightarrow> json \<Rightarrow> event list \<Rightarrow> outcome" where
  "respond m env fs event user_message evs0 =
     (case load_context env fs event of (history, evs1) \<Rightarrow>
      case build_messages env fs history user_message of (messages, evs2) \<Rightarrow>
      case get_user_model env fs event of
        (Inl e, evs3) \<Rightarrow> \<lparr>escaped = Some e, store = fs, trace = evs0 @ evs1 @ evs2 @ evs3\<rparr>
      | (Inr model, evs3) \<Rightarrow>
      case call_openai env messages model of
        (Inl e, evs4) \<Rightarrow>
          \<lparr>escaped = Some e, store = fs, trace = evs0 @ evs1 @ evs2 @ evs3 @ evs4\<rparr>
      | (Inr reply, evs4) \<Rightarrow>
        if reply \<noteq> []
        then (case save_context env fs event (append_and_trim history user_message reply) of
                (Some e, fs', evs5) \<Rightarrow>
                  \<lparr>escaped = Some e, store = fs', trace = evs0 @ evs1 @ evs2 @ evs3 @ evs4 @ evs5\<rparr>
              | (None, fs', evs5) \<Rightarrow>
                  \<lparr>escaped = None, store = fs',
                   trace = evs0 @ evs1 @ evs2 @ evs3 @ evs4 @ evs5 @ [Finish m reply]\<rparr>)
        else \<lparr>escaped = None, store = fs,
              trace = evs0 @ evs1 @ evs2 @ evs3 @ evs4 @ [Finish m reply]\<rparr>)"

definition chat_handler :: "env \<Rightarrow> files \<Rightarrow> message_event \<Rightarrow> segment list \<Rightarrow> outcome" where
  "chat_handler env fs event args =
     (case build_user_message env args of
        (None, evs) \<Rightarrow> \<lparr>escaped = None, store = fs, trace = evs @ [Finish Chat usage_notice]\<rparr>
      | (Some user_message, evs) \<Rightarrow> respond Chat env fs event user_message evs)"

definition tome_handler :: "env \<Rightarrow> files \<Rightarrow> message_event \<Rightarrow> outcome" where
  "tome_handler env fs event =
     (case build_user_message env (message event) of
        (None, evs) \<Rightarrow> \<lparr>escaped = None, store = fs, trace = evs\<rparr>
      | (Some user_message, evs) \<Rightarrow> respond Tome env fs event user_message evs)"

section \<open>Notions used to state the properties\<close>

text \<open>What a handler passes to \<open>_call_openai\<close> for a built user message (the messages
  built from the loaded history, and the user's model), and the reply it gets; \<open>Inl\<close>
  where \<open>_get_user_model\<close> or \<open>_call_openai\<close> raises.\<close>

definition turn_messages :: "env \<Rightarrow> files \<Rightarrow> message_event \<Rightarrow> json \<Rightarrow> json list" where
  "turn_messages env fs event user_message =
     fst (build_messages env fs (fst (load_context env fs event)) user_message)"

definition turn_model :: "env \<Rightarrow> files \<Rightarrow> message_event \<Rightarrow> exn + ustr" where
  "turn_model env fs event = fst (get_user_model env fs event)"

definition turn_reply :: "env \<Rightarrow> files \<Rightarrow> message_event \<Rightarrow> json \<Rightarrow> exn + ustr" where
  "turn_reply env fs event user_message =
     (case turn_model env fs event of
        Inl e \<Rightarrow> Inl e
      | Inr model \<Rightarrow> fst (call_openai env (turn_messages env fs event user_message) model))"

text \<open>The outcome of the request \<open>_call_openai\<close> sends with a key and a base URL.\<close>

definition completion_outcome ::
  "env \<Rightarrow> ustr \<Rightarrow> ustr \<Rightarrow> json list \<Rightarrow> ustr \<Rightarrow> http_outcome" where
  "completion_outcome env api_key base_url messages model =
     http_post env (completion_url base_url) (completion_headers api_key)
       (completion_payload model messages)"

text \<open>The failure outcomes \<open>_call_openai\<close> answers with a notice, the three settings
  being there: no key, the request raises, the status is not 2xx, or the body is not
  JSON holding \<open>choices[0].message.content\<close> as a string.\<close>

definition call_failed :: "env \<Rightarrow> json list \<Rightarrow> ustr \<Rightarrow> bool" where
  "call_failed env messages model =
     (case get_openai_config env of
        Inl e \<Rightarrow> False
      | Inr (None, base_url, default_model) \<Rightarrow> True
      | Inr (Some api_key, base_url, default_model) \<Rightarrow>
          api_key = [] \<or>
          (case completion_outcome env api_key base_url messages model of
             Raised \<Rightarrow> True
           | Responded resp \<Rightarrow>
               \<not> is_success resp \<or>
               (case body_json resp of
                  None \<Rightarrow> True
                | Some data \<Rightarrow> reply_of_json data = None)))"

text \<open>The events that touch the store.\<close>

fun is_store_event :: "event \<Rightarrow> bool" where
  "is_store_event (MakeDirs d) = True"
| "is_store_event (WriteJson p t) = True"
| "is_store_event _ = False"

fun is_request :: "event \<Rightarrow> bool" where
  "is_request (HttpPost u h p) = True"
| "is_request (HttpGet u) = True"
| "is_request _ = False"

text \<open>The image URLs a stored content holds: of each
  \<open>{"type": "image_url", "image_url": {"url": u}}\<close> of a part array, the \<open>u\<close>.\<close>

definition image_url_of :: "json \<Rightarrow> ustr option" where
  "image_url_of p =
     (if subscript_key p (ascii ''type'') = Some (JStr (ascii ''image_url''))
      then (case subscript_key p (ascii ''image_url'') of
              Some inner \<Rightarrow> (case subscript_key inner (ascii ''url'') of
                               Some (JStr u) \<Rightarrow> Some u
                             | _ \<Rightarrow> None)
            | None \<Rightarrow> None)
      else None)"

fun image_urls :: "json \<Rightarrow> ustr list" where
  "image_urls (JArr ps) = List.map_filter image_url_of ps"
| "image_urls _ = []"

text \<open>Every image part of a list of parts has a URL that starts with \<open>data:\<close>.\<close>

fun part_ok :: "part \<Rightarrow> bool" where
  "part_ok (TextPart t) = True"
| "part_ok (ImagePart u) = prefix (ascii ''data:'') u"

definition image_parts_ok :: "part list \<Rightarrow> bool" where
  "image_parts_ok parts = list_all part_ok parts"

section \<open>A concrete environment for worked examples\<close>

text \<open>A key, a base URL and a default model, no prompt file, an identity table for the non-ASCII code
  points, a parser that knows the empty list and the empty dict, a serialiser that only
  names the kind of document, a network that always raises, and a disk that works.\<close>

definition example_env :: env where
  "example_env =
     \<lparr>openai_api_key = Configured (Some (ascii ''sk-test'')),
      openai_base_url = Configured (ascii ''https://api.example.com/v1/''),
      openai_model = Configured (ascii ''gpt-4o-mini''),
      prompt_file = None,
      cwd = ascii ''/bot'',
      lower_tbl = (\<lambda>seen c rest. [c]),
      json_loads = (\<lambda>t. if t = ascii ''[]'' then Some (JArr [])
                         else if t = ascii ''{}'' then Some (JObj []) else None),
      json_dumps = (\<lambda>j. case j of JArr xs \<Rightarrow> ascii ''list '' @ str_of_nat (length xs)
                              | JObj kvs \<Rightarrow> ascii ''dict '' @ str_of_nat (length kvs)
                              | _ \<Rightarrow> ascii ''scalar''),
      http_post = (\<lambda>url headers payload. Raised),
      http_get = (\<lambda>url. Raised),
      makedirs_ok = (\<lambda>d. True),
      file_write = (\<lambda>path t. Written)\<rparr>"

definition example_response :: "nat \<Rightarrow> ustr \<Rightarrow> response" where
  "example_response code body =
     \<lparr>status_code = code, reason_phrase = ascii ''reason'', body_text = body,
      body_json = None, body_bytes = [], content_type = None\<rparr>"

definition text_segment :: "ustr \<Rightarrow> segment" where
  "text_segment t = \<lparr>seg_type = ascii ''text'', seg_data = [ascii ''text'' \<mapsto> t]\<rparr>"

definition example_event :: message_event where
  "example_event = \<lparr>user_id = ascii ''42'', group_id = None, message = [text_segment (ascii ''hello'')]\<rparr>"

definition image_segment :: "ustr \<Rightarrow> ustr \<Rightarrow> segment" where
  "image_segment key v = \<lparr>seg_type = ascii ''image'', seg_data = [key \<mapsto> v]\<rparr>"

text \<open>Three responses: a completion whose content is blank, one that greets, and an
  image of three bytes served as JPEG.\<close>

definition blank_completion :: response where
  "blank_completion =
     \<lparr>status_code = 200, reason_phrase = ascii ''OK'', body_text = [],
      body_json = Some (JObj [(ascii ''choices'',
                    JArr [JObj [(ascii ''message'',
                            JObj [(ascii ''content'', JStr (ascii ''  ''))])]])]),
      body_bytes = [], content_type = None\<rparr>"

definition greeting_completion :: response where
  "greeting_completion =
     \<lparr>status_code = 200, reason_phrase = ascii ''OK'', body_text = [],
      body_json = Some (JObj [(ascii ''choices'',
                    JArr [JObj [(ascii ''message'',
                            JObj [(ascii ''content'', JStr (ascii '' Hi there ''))])]])]),
      body_bytes = [], content_type = None\<rparr>"

definition jpeg_response :: response where
  "jpeg_response =
     \<lparr>status_code = 200, reason_phrase = ascii ''OK'', body_text = [],
      body_json = None, body_bytes = [77, 97, 110],
      content_type = Some (ascii ''image/jpeg; charset=binary'')\<rparr>"

section \<open>Evaluation rules\<close>

lemmas str_defs = ascii_def ascii_lower_def lower_def

lemmas strip_defs = strip_def lstrip_def rstrip_def is_space_def

lemmas assembler_defs = build_user_message_def assemble_parts_def flush_text_def
  build_image_part_def data_get_def normalize_image_data_url_def infer_image_mime_def
  user_turn_def text_segment_def

lemmas store_defs = load_context_def load_user_settings_def read_json_def read_text_def
  save_context_def save_user_settings_def write_json_def get_user_model_def
  build_messages_def load_prompt_message_def get_prompt_file_path_def

lemmas turn_defs = turn_reply_def turn_messages_def turn_model_def

lemmas call_defs = call_openai_def get_openai_config_def completion_outcome_def is_success_def
  reply_of_json_def

lemma example_env_fields:
  "openai_api_key example_env = Configured (Some (ascii ''sk-test''))"
  "openai_base_url example_env = Configured (ascii ''https://api.example.com/v1/'')"
  "openai_model example_env = Configured (ascii ''gpt-4o-mini'')"
  "prompt_file example_env = None"
  "cwd example_env = ascii ''/bot''"
  "lower_tbl example_env = (\<lambda>seen c rest. [c])"
  "http_post example_env = (\<lambda>url headers payload. Raised)"
  "http_get example_env = (\<lambda>url. Raised)"
  "makedirs_ok example_env = (\<lambda>d. True)"
  "file_write example_env = (\<lambda>path t. Written)"
  "json_dumps example_env (JArr xs) = ascii ''list '' @ str_of_nat (length xs)"
  "json_dumps example_env (JObj kvs) = ascii ''dict '' @ str_of_nat (length kvs)"
  by (simp_all add: example_env_def)

lemma example_paths:
  assumes "cwd env = ascii ''/bot''"
  shows "get_context_path env example_event = ascii ''/bot/data/openai/42.json''"
    and "get_user_settings_path env example_event = ascii ''/bot/data/openai/users/42.json''"
    and "CONTEXT_DIR env = ascii ''/bot/data/openai''"
    and "USER_SETTINGS_DIR env = ascii ''/bot/data/openai/users''"
  using assms
  by (simp_all add: get_context_path_def get_user_settings_path_def USER_SETTINGS_DIR_def
      CONTEXT_DIR_def path_join_def get_session_id_def example_event_def ascii_def
      suffix_to_prefix)

section \<open>Model directory\<close>

text \<open>
  Claim C8, as the code has it. The identifier is lower-cased first, so the tests are
  on the lower-cased identifier: the text tag always comes first; the vision tag is present
  exactly when the lower-cased identifier contains \<open>vision\<close> or \<open>gpt-4o\<close>; the reasoning
  tag exactly when it starts with \<open>o1\<close> or contains \<open>reason\<close>; no other tag occurs and
  none occurs twice; \<open>gpt-4o-mini\<close> gets text and vision, \<open>o1-preview\<close> text and
  reasoning, \<open>gpt-3.5-turbo\<close> text alone. The result depends on the identifier (and
  Unicode's table) only.
\<close>

theorem infer_model_features_of_lowered_identifier:
  "hd (infer_model_features tbl model_id) = feature_text
   \<and> (feature_vision \<in> set (infer_model_features tbl model_id)
        \<longleftrightarrow> sublist (ascii ''vision'') (lower tbl model_id)
            \<or> sublist (ascii ''gpt-4o'') (lower tbl model_id))
   \<and> (feature_reasoning \<in> set (infer_model_features tbl model_id)
        \<longleftrightarrow> prefix (ascii ''o1'') (lower tbl model_id)
            \<or> sublist (ascii ''reason'') (lower tbl model_id))
   \<and> set (infer_model_features tbl model_id) \<subseteq> {feature_text, feature_vision, feature_reasoning}
   \<and> distinct (infer_model_features tbl model_id)
   \<and> infer_model_features tbl (ascii ''gpt-4o-mini'') = [feature_text, feature_vision]
   \<and> infer_model_features tbl (ascii ''o1-preview'') = [feature_text, feature_reasoning]
   \<and> infer_model_features tbl (ascii ''gpt-3.5-turbo'') = [feature_text]"
proof -
  have tags: "feature_text \<noteq> feature_vision" "feature_text \<noteq> feature_reasoning"
    "feature_vision \<noteq> feature_reasoning"
    by (simp_all add: feature_text_def feature_vision_def feature_reasoning_def)
  have general: "hd (infer_model_features tbl model_id) = feature_text"
    "feature_vision \<in> set (infer_model_features tbl model_id)
        \<longleftrightarrow> sublist (ascii ''vision'') (lower tbl model_id)
            \<or> sublist (ascii ''gpt-4o'') (lower tbl model_id)"
    "feature_reasoning \<in> set (infer_model_features tbl model_id)
        \<longleftrightarrow> prefix (ascii ''o1'') (lower tbl model_id)
            \<or> sublist (ascii ''reason'') (lower tbl model_id)"
    "set (infer_model_features tbl model_id) \<subseteq> {feature_text, feature_vision, feature_reasoning}"
    "distinct (infer_model_features tbl model_id)"
    using tags by (auto simp: infer_model_features_def Let_def)
  have ex1: "infer_model_features tbl (ascii ''gpt-4o-mini'') = [feature_text, feature_vision]"
    by (simp add: infer_model_features_def str_defs sublist_code)
  have ex2: "infer_model_features tbl (ascii ''o1-preview'') = [feature_text, feature_reasoning]"
    by (simp add: infer_model_features_def str_defs sublist_code)
  have ex3: "infer_model_features tbl (ascii ''gpt-3.5-turbo'') = [feature_text]"
    by (simp add: infer_model_features_def str_defs sublist_code)
  from general ex1 ex2 ex3 show ?thesis by blast
qed

text \<open>
  Claim C8 as stated fails where the identifier has capitals: \<open>GPT-4O\<close> contains
  neither \<open>vision\<close> nor \<open>gpt-4o\<close>, and gets the vision tag.
\<close>

theorem infer_model_features_capitals_counterexample:
  "feature_vision \<in> set (infer_model_features (\<lambda>seen c rest. [c]) (ascii ''GPT-4O''))
   \<and> \<not> sublist (ascii ''vision'') (ascii ''GPT-4O'')
   \<and> \<not> sublist (ascii ''gpt-4o'') (ascii ''GPT-4O'')"
  by (simp add: infer_model_features_def str_defs sublist_code)

section \<open>Multimodal message assembler\<close>

text \<open>
  Claim C6. On the message of a text segment \<open>hi\<close> followed by an image segment with
  inline base64 \<open>AAAA\<close> (and no file name), \<open>_build_user_message\<close> returns the user turn
  whose content is the array of a text part \<open>hi\<close> and an image part with the URL
  \<open>data:image/png;base64,AAAA\<close>, and sends no request.
\<close>

theorem build_user_message_text_then_inline_image:
  "build_user_message env
     [\<lparr>seg_type = ascii ''text'', seg_data = [ascii ''text'' \<mapsto> ascii ''hi'']\<rparr>,
      \<lparr>seg_type = ascii ''image'', seg_data = [ascii ''base64'' \<mapsto> ascii ''AAAA'']\<rparr>]
   = (Some (JObj [(ascii ''role'', JStr (ascii ''user'')),
                  (ascii ''content'',
                   JArr [JObj [(ascii ''type'', JStr (ascii ''text'')),
                               (ascii ''text'', JStr (ascii ''hi''))],
                         JObj [(ascii ''type'', JStr (ascii ''image_url'')),
                               (ascii ''image_url'',
                                JObj [(ascii ''url'',
                                       JStr (ascii ''data:image/png;base64,AAAA''))])]])]),
      [])
   \<and> prefix (ascii ''data:image/png;base64,'') (ascii ''data:image/png;base64,AAAA'')"
  by (simp add: assembler_defs strip_defs str_defs)

text \<open>
  Claim C7. Whenever the assembled parts are exactly one text part, the user turn's
  content is that text as a plain string; the single text segment \<open>hello\<close> gives
  \<open>{"role": "user", "content": "hello"}\<close>.
\<close>

theorem build_user_message_single_text_collapses:
  "(fst (assemble_parts env msg) = [TextPart t]
      \<longrightarrow> fst (build_user_message env msg)
           = Some (JObj [(ascii ''role'', JStr (ascii ''user'')), (ascii ''content'', JStr t)]))
   \<and> build_user_message env
        [\<lparr>seg_type = ascii ''text'', seg_data = [ascii ''text'' \<mapsto> ascii ''hello'']\<rparr>]
     = (Some (JObj [(ascii ''role'', JStr (ascii ''user'')),
                    (ascii ''content'', JStr (ascii ''hello''))]), [])"
proof
  show "fst (assemble_parts env msg) = [TextPart t]
      \<longrightarrow> fst (build_user_message env msg)
           = Some (JObj [(ascii ''role'', JStr (ascii ''user'')), (ascii ''content'', JStr t)])"
    by (cases "assemble_parts env msg") (simp add: build_user_message_def user_turn_def)
  show "build_user_message env
        [\<lparr>seg_type = ascii ''text'', seg_data = [ascii ''text'' \<mapsto> ascii ''hello'']\<rparr>]
     = (Some (JObj [(ascii ''role'', JStr (ascii ''user'')),
                    (ascii ''content'', JStr (ascii ''hello''))]), [])"
    by (simp add: assembler_defs strip_defs str_defs)
qed

theorem build_user_message_single_text_collapses_witness:
  "fst (assemble_parts example_env [text_segment (ascii '' hey ''), text_segment (ascii ''you '')])
     = [TextPart (ascii ''hey you'')]
   \<and> fst (build_user_message example_env
            [text_segment (ascii '' hey ''), text_segment (ascii ''you '')])
     = Some (JObj [(ascii ''role'', JStr (ascii ''user'')),
                   (ascii ''content'', JStr (ascii ''hey you''))])"
proof -
  have h: "fst (assemble_parts example_env
                  [text_segment (ascii '' hey ''), text_segment (ascii ''you '')])
     = [TextPart (ascii ''hey you'')]"
    by (simp add: assembler_defs strip_defs str_defs)
  from build_user_message_single_text_collapses
         [of example_env "[text_segment (ascii '' hey ''), text_segment (ascii ''you '')]"
             "ascii ''hey you''"] h
  show ?thesis by blast
qed

subsection \<open>Images\<close>

lemma b64_alphabet_length: "length b64_alphabet = 64"
  by (simp add: b64_alphabet_def ascii_def)

lemma b64_digit_in_alphabet: "b64_digit n \<in> set b64_alphabet"
  unfolding b64_digit_def by (rule nth_mem) (simp add: b64_alphabet_length)

lemma b64encode_chars: "set (b64encode bs) \<subseteq> insert 61 (set b64_alphabet)"
  by (induction bs rule: b64encode.induct) (auto simp: b64_digit_in_alphabet)

lemma colon_not_base64: "58 \<notin> insert 61 (set b64_alphabet)"
  by (simp add: b64_alphabet_def ascii_def)

lemma b64encode_not_data_url: "\<not> prefix (ascii ''data:image/'') (b64encode bs)"
proof
  assume "prefix (ascii ''data:image/'') (b64encode bs)"
  then have "set (ascii ''data:image/'') \<subseteq> set (b64encode bs)"
    by (rule set_mono_prefix)
  moreover have "58 \<in> set (ascii ''data:image/'')" by (simp add: ascii_def)
  ultimately have "58 \<in> insert 61 (set b64_alphabet)"
    using b64encode_chars [of bs] by blast
  with colon_not_base64 show False by simp
qed

lemma b64encode_nonempty: "bs \<noteq> [] \<Longrightarrow> b64encode bs \<noteq> []"
  by (cases bs rule: b64encode.cases) simp_all

lemma normalize_is_data_uri:
  "prefix (ascii ''data:'') (normalize_image_data_url tbl file_value base64_value mime)"
proof (cases "prefix (ascii ''data:image/'') base64_value")
  case True
  have "prefix (ascii ''data:'') (ascii ''data:image/'')" by (simp add: ascii_def)
  with True have "prefix (ascii ''data:'') base64_value"
    using prefix_order.trans by blast
  with True show ?thesis by (simp add: normalize_image_data_url_def)
next
  case False
  then show ?thesis by (simp add: normalize_image_data_url_def Let_def)
qed

lemma build_image_part_cases:
  "fst (build_image_part env seg) = None
   \<or> (\<exists>f b m. fst (build_image_part env seg)
                = Some (ImagePart (normalize_image_data_url (lower_tbl env) f b m)))"
  by (auto simp: build_image_part_def Let_def split: sum.splits prod.splits)

lemma image_parts_ok_iff:
  "image_parts_ok parts \<longleftrightarrow> (\<forall>u. ImagePart u \<in> set parts \<longrightarrow> prefix (ascii ''data:'') u)"
proof (induction parts)
  case Nil
  show ?case by (simp add: image_parts_ok_def)
next
  case (Cons p parts)
  then show ?case by (cases p) (auto simp: image_parts_ok_def)
qed

lemma flush_text_ok:
  "image_parts_ok parts \<Longrightarrow> image_parts_ok (fst (flush_text (parts, buf)))"
  by (auto simp: flush_text_def image_parts_ok_iff Let_def)

lemma scan_segments_ok:
  "image_parts_ok parts \<Longrightarrow> image_parts_ok (fst (scan_segments env msg parts buf evs))"
proof (induction msg arbitrary: parts buf evs)
  case Nil
  then show ?case by simp
next
  case (Cons seg rest)
  show ?case
  proof (cases "seg_type seg = ascii ''text'' \<or> seg_type seg \<noteq> ascii ''image''")
    case True
    then show ?thesis using Cons by auto
  next
    case False
    then have image: "seg_type seg \<noteq> ascii ''text''" "seg_type seg = ascii ''image''"
      by blast+
    obtain parts' buf' where f: "flush_text (parts, buf) = (parts', buf')"
      by (cases "flush_text (parts, buf)")
    have ok': "image_parts_ok parts'"
      using flush_text_ok [OF Cons.prems, of buf] f by simp
    obtain ip evs' where b: "build_image_part env seg = (ip, evs')"
      by (cases "build_image_part env seg")
    show ?thesis
    proof (cases ip)
      case None
      with image f b show ?thesis using Cons.IH [OF ok'] by simp
    next
      case (Some p)
      with build_image_part_cases [of env seg] b
      obtain f' b' m' where "p = ImagePart (normalize_image_data_url (lower_tbl env) f' b' m')"
        by auto
      then have "image_parts_ok (parts' @ [p])"
        using ok' normalize_is_data_uri by (auto simp: image_parts_ok_iff)
      with image f b Some show ?thesis using Cons.IH by simp
    qed
  qed
qed

lemma assemble_parts_ok: "image_parts_ok (fst (assemble_parts env msg))"
proof -
  have "image_parts_ok []" by (simp add: image_parts_ok_iff)
  then have "image_parts_ok (fst (scan_segments env msg [] [] []))"
    by (rule scan_segments_ok)
  then show ?thesis
    using flush_text_ok
    by (auto simp: assemble_parts_def split: prod.splits)
qed

lemma image_url_of_part:
  "image_url_of (json_of_part p) = (case p of TextPart t \<Rightarrow> None | ImagePart u \<Rightarrow> Some u)"
  by (cases p) (simp_all add: image_url_of_def ascii_def)

lemma image_urls_of_parts:
  "set (image_urls (JArr (map json_of_part parts))) = {u. ImagePart u \<in> set parts}"
  by (induction parts) (auto simp: image_url_of_part split: part.splits)

lemma build_user_message_content:
  assumes "fst (build_user_message env msg) = Some turn"
  shows "(\<exists>t. turn = user_turn (JStr t))
       \<or> turn = user_turn (JArr (map json_of_part (fst (assemble_parts env msg))))"
  using assms
  by (auto simp: build_user_message_def split: prod.splits list.splits part.splits)

lemma build_image_part_inline:
  assumes "data_get seg (ascii ''base64'') \<noteq> []"
  shows "build_image_part env seg
         = (Some (ImagePart (normalize_image_data_url (lower_tbl env)
                    (data_get seg (ascii ''file'')) (data_get seg (ascii ''base64'')) None)), [])"
  using assms by (simp add: build_image_part_def Let_def)

lemma build_image_part_file_payload:
  assumes "data_get seg (ascii ''base64'') = []"
    and "data_get seg (ascii ''file'') = ascii ''base64://'' @ b" and "b \<noteq> []"
  shows "build_image_part env seg
         = (Some (ImagePart (normalize_image_data_url (lower_tbl env)
                    (data_get seg (ascii ''file'')) b None)), [])"
  using assms by (simp add: build_image_part_def Let_def)

lemma build_image_part_fetched:
  assumes "data_get seg (ascii ''base64'') = []"
    and "\<not> prefix (ascii ''base64://'') (data_get seg (ascii ''file''))"
    and "data_get seg (ascii ''url'') \<noteq> []"
    and "http_get env (data_get seg (ascii ''url'')) = Responded resp"
    and "is_success resp" and "body_bytes resp \<noteq> []"
  shows "\<exists>mime. mime \<noteq> [] \<and> build_image_part env seg
         = (Some (ImagePart (ascii ''data:'' @ mime @ ascii '';base64,''
                              @ b64encode (body_bytes resp))),
            [HttpGet (data_get seg (ascii ''url''))])"
proof -
  have inferred: "infer_image_mime tbl f \<noteq> []" for tbl f
    by (simp add: infer_image_mime_def Let_def ascii_def)
  show ?thesis
    using assms b64encode_nonempty [OF assms(6)] b64encode_not_data_url [of "body_bytes resp"]
      inferred
    by (auto simp: build_image_part_def fetch_image_base64_def normalize_image_data_url_def
        Let_def)
qed

lemma build_image_part_skipped:
  assumes "data_get seg (ascii ''base64'') = []"
    and "\<not> prefix (ascii ''base64://'') (data_get seg (ascii ''file''))"
    and "data_get seg (ascii ''url'') = []
         \<or> http_get env (data_get seg (ascii ''url'')) = Raised
         \<or> (\<exists>resp. http_get env (data_get seg (ascii ''url'')) = Responded resp
                    \<and> (\<not> is_success resp \<or> body_bytes resp = []))"
  shows "fst (build_image_part env seg) = None"
  using assms
  by (auto simp: build_image_part_def fetch_image_base64_def Let_def)

text \<open>
  Claim C4. Every image URL in the content of a built user turn starts with \<open>data:\<close>,
  as everything \<open>_normalize_image_data_url\<close> returns does. An image segment with inline
  base64 (in its \<open>base64\<close> field, or after \<open>base64://\<close> in its \<open>file\<close> field) becomes
  an image part with the normalised payload, and nothing is fetched. A segment with only
  a URL is fetched: on a 2xx response with a body, the part's URL is \<open>data:\<close>, a
  MIME type, \<open>;base64,\<close> and the base64 of the fetched bytes; with no URL, a failed
  request, a status other than 2xx or an empty body, no part is added. The remote URL
  itself never is the URL of a part.
\<close>

theorem image_parts_carry_data_uris:
  "(fst (build_user_message env msg) = Some turn
      \<longrightarrow> (\<exists>content. turn = user_turn content
            \<and> (\<forall>u \<in> set (image_urls content). prefix (ascii ''data:'') u)))
   \<and> prefix (ascii ''data:'') (normalize_image_data_url tbl file_value base64_value mime)
   \<and> (data_get seg (ascii ''base64'') \<noteq> []
      \<longrightarrow> build_image_part env seg
          = (Some (ImagePart (normalize_image_data_url (lower_tbl env)
                     (data_get seg (ascii ''file'')) (data_get seg (ascii ''base64'')) None)), []))
   \<and> (data_get seg (ascii ''base64'') = []
       \<and> data_get seg (ascii ''file'') = ascii ''base64://'' @ b \<and> b \<noteq> []
      \<longrightarrow> build_image_part env seg
          = (Some (ImagePart (normalize_image_data_url (lower_tbl env)
                     (data_get seg (ascii ''file'')) b None)), []))
   \<and> (data_get seg (ascii ''base64'') = []
       \<and> \<not> prefix (ascii ''base64://'') (data_get seg (ascii ''file''))
       \<and> data_get seg (ascii ''url'') \<noteq> []
       \<and> http_get env (data_get seg (ascii ''url'')) = Responded resp
       \<and> is_success resp \<and> body_bytes resp \<noteq> []
      \<longrightarrow> (\<exists>m. m \<noteq> [] \<and> build_image_part env seg
             = (Some (ImagePart (ascii ''data:'' @ m @ ascii '';base64,''
                                  @ b64encode (body_bytes resp))),
                [HttpGet (data_get seg (ascii ''url''))])))
   \<and> (data_get seg (ascii ''base64'') = []
       \<and> \<not> prefix (ascii ''base64://'') (data_get seg (ascii ''file''))
       \<and> (data_get seg (ascii ''url'') = []
            \<or> http_get env (data_get seg (ascii ''url'')) = Raised
            \<or> (\<exists>r. http_get env (data_get seg (ascii ''url'')) = Responded r
                     \<and> (\<not> is_success r \<or> body_bytes r = [])))
      \<longrightarrow> fst (build_image_part env seg) = None)"
proof (intro conjI impI)
  assume built: "fst (build_user_message env msg) = Some turn"
  have ok: "image_parts_ok (fst (assemble_parts env msg))"
    by (rule assemble_parts_ok)
  from build_user_message_content [OF built]
  show "\<exists>content. turn = user_turn content
            \<and> (\<forall>u \<in> set (image_urls content). prefix (ascii ''data:'') u)"
  proof
    assume "\<exists>t. turn = user_turn (JStr t)"
    then show ?thesis by auto
  next
    assume "turn = user_turn (JArr (map json_of_part (fst (assemble_parts env msg))))"
    then show ?thesis
      using ok image_urls_of_parts [of "fst (assemble_parts env msg)"]
      by (auto simp: image_parts_ok_iff)
  qed
next
  show "prefix (ascii ''data:'') (normalize_image_data_url tbl file_value base64_value mime)"
    by (rule normalize_is_data_uri)
next
  assume "data_get seg (ascii ''base64'') \<noteq> []"
  then show "build_image_part env seg
          = (Some (ImagePart (normalize_image_data_url (lower_tbl env)
                     (data_get seg (ascii ''file'')) (data_get seg (ascii ''base64'')) None)), [])"
    by (rule build_image_part_inline)
next
  assume "data_get seg (ascii ''base64'') = []
       \<and> data_get seg (ascii ''file'') = ascii ''base64://'' @ b \<and> b \<noteq> []"
  then show "build_image_part env seg
          = (Some (ImagePart (normalize_image_data_url (lower_tbl env)
                     (data_get seg (ascii ''file'')) b None)), [])"
    using build_image_part_file_payload by blast
next
  assume "data_get seg (ascii ''base64'') = []
       \<and> \<not> prefix (ascii ''base64://'') (data_get seg (ascii ''file''))
       \<and> data_get seg (ascii ''url'') \<noteq> []
       \<and> http_get env (data_get seg (ascii ''url'')) = Responded resp
       \<and> is_success resp \<and> body_bytes resp \<noteq> []"
  then show "\<exists>m. m \<noteq> [] \<and> build_image_part env seg
             = (Some (ImagePart (ascii ''data:'' @ m @ ascii '';base64,''
                                  @ b64encode (body_bytes resp))),
                [HttpGet (data_get seg (ascii ''url''))])"
    using build_image_part_fetched by blast
next
  assume "data_get seg (ascii ''base64'') = []
       \<and> \<not> prefix (ascii ''base64://'') (data_get seg (ascii ''file''))
       \<and> (data_get seg (ascii ''url'') = []
            \<or> http_get env (data_get seg (ascii ''url'')) = Raised
            \<or> (\<exists>r. http_get env (data_get seg (ascii ''url'')) = Responded r
                     \<and> (\<not> is_success r \<or> body_bytes r = [])))"
  then show "fst (build_image_part env seg) = None"
    using build_image_part_skipped by blast
qed

theorem image_parts_carry_data_uris_witness:
  "fst (build_user_message (example_env\<lparr>http_get := \<lambda>url. Responded jpeg_response\<rparr>)
          [text_segment (ascii ''look''), image_segment (ascii ''url'') (ascii ''http://x/a.png'')])
     = Some (user_turn (JArr [json_of_part (TextPart (ascii ''look'')),
                              json_of_part (ImagePart (ascii ''data:image/jpeg;base64,TWFu''))]))
   \<and> image_urls (JArr [json_of_part (TextPart (ascii ''look'')),
                              json_of_part (ImagePart (ascii ''data:image/jpeg;base64,TWFu''))])
     = [ascii ''data:image/jpeg;base64,TWFu'']
   \<and> prefix (ascii ''data:'') (ascii ''data:image/jpeg;base64,TWFu'')"
proof -
  let ?E = "example_env\<lparr>http_get := \<lambda>url. Responded jpeg_response\<rparr>"
  let ?msg = "[text_segment (ascii ''look''), image_segment (ascii ''url'') (ascii ''http://x/a.png'')]"
  let ?content = "JArr [json_of_part (TextPart (ascii ''look'')),
                              json_of_part (ImagePart (ascii ''data:image/jpeg;base64,TWFu''))]"
  have h: "fst (build_user_message ?E ?msg) = Some (user_turn ?content)"
    by (simp add: build_user_message_def assemble_parts_def flush_text_def text_segment_def
        image_segment_def data_get_def user_turn_def build_image_part_def
        fetch_image_base64_def jpeg_response_def is_success_def normalize_image_data_url_def
        b64_digit_def b64_alphabet_def strip_defs ascii_def Let_def)
  have urls: "image_urls ?content = [ascii ''data:image/jpeg;base64,TWFu'']"
    by (simp add: image_url_of_def ascii_def)
  have "\<exists>content. user_turn ?content = user_turn content
            \<and> (\<forall>u \<in> set (image_urls content). prefix (ascii ''data:'') u)"
    using image_parts_carry_data_uris [of ?E ?msg "user_turn ?content"] h by blast
  then have "\<forall>u \<in> set (image_urls ?content). prefix (ascii ''data:'') u"
    by (simp add: user_turn_def)
  with h urls show ?thesis by simp
qed

section \<open>Completion client\<close>

lemma get_openai_config_example:
  "get_openai_config example_env
     = Inr (Some (ascii ''sk-test''), ascii ''https://api.example.com/v1/'', ascii ''gpt-4o-mini'')"
  by (simp add: get_openai_config_def example_env_def)

lemma call_openai_falsy_key:
  assumes "get_openai_config env = Inr (api_key, base_url, default_model)"
    and "api_key = None \<or> api_key = Some []"
  shows "call_openai env messages model = (Inr missing_key_notice, [])"
  using assms by (auto simp: call_openai_def)

lemma get_openai_config_unset:
  assumes "openai_api_key env = Unset \<or> openai_base_url env = Unset \<or> openai_model env = Unset"
  shows "get_openai_config env = Inl AttributeError"
proof (cases "openai_api_key env")
  case Unset
  then show ?thesis by (simp add: get_openai_config_def)
next
  case key: (Configured k)
  show ?thesis
  proof (cases "openai_base_url env")
    case Unset
    with key show ?thesis by (simp add: get_openai_config_def)
  next
    case (Configured u)
    with key assms show ?thesis by (simp add: get_openai_config_def)
  qed
qed

lemma call_openai_unset_raises:
  assumes "openai_api_key env = Unset \<or> openai_base_url env = Unset \<or> openai_model env = Unset"
  shows "call_openai env messages model = (Inl AttributeError, [])"
  using get_openai_config_unset [OF assms] by (simp add: call_openai_def)

text \<open>
  Claim C5 fails where the configuration has no API-key setting at all: there
  \<open>_get_openai_config\<close> raises \<open>AttributeError\<close> before the test of the key and outside
  the \<open>try\<close>, so \<open>_call_openai\<close> returns no notice (no request is sent either). With
  the setting present and \<open>None\<close> or empty, and the two other settings present, the
  fixed missing-key notice is returned and nothing else is done.
\<close>

theorem call_openai_absent_key_raises:
  "call_openai (example_env\<lparr>openai_api_key := Unset\<rparr>)
     [user_turn (JStr (ascii ''hi''))] (ascii ''gpt-4o-mini'')
     = (Inl AttributeError, [])
   \<and> call_openai (example_env\<lparr>openai_api_key := Configured None\<rparr>)
        [user_turn (JStr (ascii ''hi''))] (ascii ''gpt-4o-mini'')
     = (Inr [0x7F3A, 0x5C11, 32, 79, 80, 69, 78, 65, 73, 95, 65, 80, 73, 95, 75, 69, 89, 32,
             0x914D, 0x7F6E, 0x3002], [])
   \<and> call_openai (example_env\<lparr>openai_api_key := Configured (Some [])\<rparr>)
        [user_turn (JStr (ascii ''hi''))] (ascii ''gpt-4o-mini'')
     = (Inr [0x7F3A, 0x5C11, 32, 79, 80, 69, 78, 65, 73, 95, 65, 80, 73, 95, 75, 69, 89, 32,
             0x914D, 0x7F6E, 0x3002], [])"
  by (simp add: call_openai_def get_openai_config_def example_env_def missing_key_notice_def
      ascii_def)

lemma upstream_error_notice_shows_status:
  "sublist (str_of_nat code) (upstream_error_notice code)"
  unfolding upstream_error_notice_def by (rule sublist_appendI)

text \<open>The call to the logger on a status other than 2xx: its format and its arguments,
  the body cut to its first 1000 characters with \<open>...\<close> appended when it was longer.\<close>

lemma call_openai_upstream_events:
  assumes "get_openai_config env = Inr (Some api_key, base_url, default_model)"
    and "api_key \<noteq> []"
    and "completion_outcome env api_key base_url messages model = Responded resp"
    and "\<not> is_success resp"
  shows "snd (call_openai env messages model)
        = [HttpPost (completion_url base_url) (completion_headers api_key)
             (completion_payload model messages),
           Log Error (ascii ''OpenAI request failed: %s %s; body=%s'')
             [ArgNat (status_code resp), ArgStr (reason_phrase resp),
              ArgStr (if length (body_text resp) \<le> 1000 then body_text resp
                      else take 1000 (body_text resp) @ ascii ''...'')]]"
  using assms by (auto simp: call_openai_def completion_outcome_def Let_def)

text \<open>
  Claim C2, as the code has it by design. With the settings there, a key and a response
  whose status is not 2xx, \<open>_call_openai\<close> returns the upstream-error notice, which is
  fixed text around the status code in decimal: the status code is shown to the user,
  and nothing of the body is part of the notice. One request has been sent.
\<close>

theorem call_openai_upstream_status:
  assumes "get_openai_config env = Inr (Some api_key, base_url, default_model)"
    and "api_key \<noteq> []"
    and "completion_outcome env api_key base_url messages model = Responded resp"
    and "\<not> is_success resp"
  shows "fst (call_openai env messages model) = Inr (upstream_error_notice (status_code resp))
    \<and> upstream_error_notice (status_code resp)
        = [0x4E0A, 0x6E38, 0x8FD4, 0x56DE, 0x9519, 0x8BEF, 32] @ str_of_nat (status_code resp)
          @ [0xFF0C, 0x8BF7, 0x7A0D, 0x540E, 0x518D, 0x8BD5, 0x3002]
    \<and> sublist (str_of_nat (status_code resp)) (upstream_error_notice (status_code resp))
    \<and> filter is_request (snd (call_openai env messages model))
        = [HttpPost (completion_url base_url) (completion_headers api_key)
             (completion_payload model messages)]"
proof -
  have reply: "fst (call_openai env messages model)
      = Inr (upstream_error_notice (status_code resp))"
    using assms by (simp add: call_openai_def completion_outcome_def Let_def)
  have form: "upstream_error_notice (status_code resp)
        = [0x4E0A, 0x6E38, 0x8FD4, 0x56DE, 0x9519, 0x8BEF, 32] @ str_of_nat (status_code resp)
          @ [0xFF0C, 0x8BF7, 0x7A0D, 0x540E, 0x518D, 0x8BD5, 0x3002]"
    by (simp add: upstream_error_notice_def)
  have sent: "filter is_request (snd (call_openai env messages model))
        = [HttpPost (completion_url base_url) (completion_headers api_key)
             (completion_payload model messages)]"
    by (simp add: call_openai_upstream_events [OF assms])
  from reply form sent upstream_error_notice_shows_status [of "status_code resp"]
  show ?thesis by blast
qed

theorem call_openai_upstream_status_witness:
  "get_openai_config (example_env\<lparr>http_post := \<lambda>url headers payload.
                          Responded (example_response 404 (ascii ''no such model''))\<rparr>)
     = Inr (Some (ascii ''sk-test''), ascii ''https://api.example.com/v1/'', ascii ''gpt-4o-mini'')
   \<and> fst (call_openai (example_env\<lparr>http_post := \<lambda>url headers payload.
                          Responded (example_response 404 (ascii ''no such model''))\<rparr>)
            [] (ascii ''gpt-4o-mini''))
     = Inr (upstream_error_notice 404)"
proof -
  let ?E = "example_env\<lparr>http_post := \<lambda>url headers payload.
                          Responded (example_response 404 (ascii ''no such model''))\<rparr>"
  have h1: "get_openai_config ?E
     = Inr (Some (ascii ''sk-test''), ascii ''https://api.example.com/v1/'', ascii ''gpt-4o-mini'')"
    by (simp add: get_openai_config_def example_env_def)
  have h2: "ascii ''sk-test'' \<noteq> []" by (simp add: ascii_def)
  have h3: "completion_outcome ?E (ascii ''sk-test'') (ascii ''https://api.example.com/v1/'')
              [] (ascii ''gpt-4o-mini'')
              = Responded (example_response 404 (ascii ''no such model''))"
    by (simp add: completion_outcome_def example_env_def)
  have h4: "\<not> is_success (example_response 404 (ascii ''no such model''))"
    by (simp add: is_success_def example_response_def)
  from call_openai_upstream_status [OF h1 h2 h3 h4] h1 show ?thesis
    by (simp add: example_response_def)
qed

text \<open>
  Claim C2 as stated fails on a 500 response: the notice returned to the user contains
  the status code \<open>500\<close>.
\<close>

theorem call_openai_status_shown_counterexample:
  "fst (call_openai
          (example_env\<lparr>http_post := \<lambda>url headers payload.
                          Responded (example_response 500 (ascii ''overloaded''))\<rparr>)
          [] (ascii ''gpt-4o-mini''))
     = Inr [0x4E0A, 0x6E38, 0x8FD4, 0x56DE, 0x9519, 0x8BEF, 32, 53, 48, 48,
            0xFF0C, 0x8BF7, 0x7A0D, 0x540E, 0x518D, 0x8BD5, 0x3002]
   \<and> sublist (ascii ''500'')
        [0x4E0A, 0x6E38, 0x8FD4, 0x56DE, 0x9519, 0x8BEF, 32, 53, 48, 48,
         0xFF0C, 0x8BF7, 0x7A0D, 0x540E, 0x518D, 0x8BD5, 0x3002]"
  by (simp add: call_openai_def get_openai_config_def example_env_def example_response_def
      is_success_def upstream_error_notice_def str_of_nat.simps ascii_def sublist_code Let_def)

section \<open>Settings\<close>

lemma update_lookup_other:
  "k \<noteq> key \<Longrightarrow> map_of (AList.update key v al) k = map_of al k"
  by (simp add: update_conv')

lemma update_filter_others:
  "filter (\<lambda>kv. fst kv \<noteq> key) (AList.update key v al) = filter (\<lambda>kv. fst kv \<noteq> key) al"
  by (induction al) auto

lemma load_user_settings_quiet:
  "filter is_store_event (snd (load_user_settings env fs event)) = []"
  by (auto simp: load_user_settings_def Let_def split: sum.splits json.splits)

text \<open>
  Claim C10. \<open>_set_user_model\<close> hands to the store the loaded settings with the
  \<open>model\<close> field set: every other key has the value it had in the loaded document, the
  other items keep their order, and \<open>model\<close> is the new model. The loaded document is
  the stored one whenever that parses to a dict. When the write goes through, the file
  holds exactly that document and no other file changes.
\<close>

theorem set_user_model_keeps_other_fields:
  assumes "makedirs_ok env (USER_SETTINGS_DIR env)"
    and "loaded = fst (load_user_settings env fs event)"
    and "path = get_user_settings_path env event"
  shows "(\<forall>t items. fs path = Some (Content t) \<and> json_loads env t = Some (JObj items)
            \<longrightarrow> loaded = items)
   \<and> (\<exists>saved.
     filter is_store_event (snd (snd (set_user_model env fs event model)))
       = [MakeDirs (USER_SETTINGS_DIR env), WriteJson path (json_dumps env (JObj saved))]
     \<and> map_of saved (ascii ''model'') = Some (JStr model)
     \<and> (\<forall>k. k \<noteq> ascii ''model'' \<longrightarrow> map_of saved k = map_of loaded k)
     \<and> filter (\<lambda>kv. fst kv \<noteq> ascii ''model'') saved
         = filter (\<lambda>kv. fst kv \<noteq> ascii ''model'') loaded
     \<and> (file_write env path (json_dumps env (JObj saved)) = Written
          \<longrightarrow> fst (snd (set_user_model env fs event model)) path
               = Some (Content (json_dumps env (JObj saved)))
             \<and> (\<forall>p. p \<noteq> path \<longrightarrow> fst (snd (set_user_model env fs event model)) p = fs p)))"
proof -
  let ?saved = "AList.update (ascii ''model'') (JStr model) loaded"
  have ld: "\<forall>t items. fs path = Some (Content t) \<and> json_loads env t = Some (JObj items)
            \<longrightarrow> loaded = items"
    using assms(2,3)
    by (auto simp: load_user_settings_def read_json_def read_text_def Let_def)
  have ev: "filter is_store_event (snd (snd (set_user_model env fs event model)))
       = [MakeDirs (USER_SETTINGS_DIR env), WriteJson path (json_dumps env (JObj ?saved))]"
    using assms load_user_settings_quiet [of env fs event]
    by (auto simp: set_user_model_def save_user_settings_def write_json_def Let_def
        case_prod_unfold split: write_outcome.splits)
  have m: "map_of ?saved (ascii ''model'') = Some (JStr model)"
    by (simp add: update_conv')
  have others: "\<forall>k. k \<noteq> ascii ''model'' \<longrightarrow> map_of ?saved k = map_of loaded k"
    by (simp add: update_lookup_other)
  have order: "filter (\<lambda>kv. fst kv \<noteq> ascii ''model'') ?saved
         = filter (\<lambda>kv. fst kv \<noteq> ascii ''model'') loaded"
    by (rule update_filter_others)
  have written: "file_write env path (json_dumps env (JObj ?saved)) = Written
          \<longrightarrow> fst (snd (set_user_model env fs event model)) path
               = Some (Content (json_dumps env (JObj ?saved)))
             \<and> (\<forall>p. p \<noteq> path \<longrightarrow> fst (snd (set_user_model env fs event model)) p = fs p)"
    using assms
    by (auto simp: set_user_model_def save_user_settings_def write_json_def Let_def
        case_prod_unfold)
  from ld ev m others order written show ?thesis by blast
qed

theorem set_user_model_keeps_other_fields_witness:
  "fst (load_user_settings
          (example_env\<lparr>json_loads := \<lambda>t. Some (JObj [(ascii ''lang'', JStr (ascii ''zh'')),
                                                       (ascii ''model'', JStr (ascii ''o1''))])\<rparr>)
          [ascii ''/bot/data/openai/users/42.json'' \<mapsto> Content (ascii ''stored'')]
          example_event)
     = [(ascii ''lang'', JStr (ascii ''zh'')), (ascii ''model'', JStr (ascii ''o1''))]
   \<and> (\<exists>saved.
        fst (snd (set_user_model
          (example_env\<lparr>json_loads := \<lambda>t. Some (JObj [(ascii ''lang'', JStr (ascii ''zh'')),
                                                       (ascii ''model'', JStr (ascii ''o1''))])\<rparr>)
          [ascii ''/bot/data/openai/users/42.json'' \<mapsto> Content (ascii ''stored'')]
          example_event (ascii ''gpt-4o'')))
          (ascii ''/bot/data/openai/users/42.json'')
        = Some (Content (ascii ''dict '' @ str_of_nat (length saved)))
        \<and> map_of saved (ascii ''model'') = Some (JStr (ascii ''gpt-4o''))
        \<and> map_of saved (ascii ''lang'') = Some (JStr (ascii ''zh'')))"
proof -
  let ?E = "example_env\<lparr>json_loads := \<lambda>t. Some (JObj [(ascii ''lang'', JStr (ascii ''zh'')),
                                                       (ascii ''model'', JStr (ascii ''o1''))])\<rparr>"
  let ?fs = "[ascii ''/bot/data/openai/users/42.json'' \<mapsto> Content (ascii ''stored'')]"
  let ?loaded = "[(ascii ''lang'', JStr (ascii ''zh'')), (ascii ''model'', JStr (ascii ''o1''))]"
  let ?path = "ascii ''/bot/data/openai/users/42.json''"
  have c: "cwd ?E = ascii ''/bot''" by (simp add: example_env_fields)
  note p = example_paths [OF c]
  have h1: "makedirs_ok ?E (USER_SETTINGS_DIR ?E)" by (simp add: example_env_fields)
  have h2: "fst (load_user_settings ?E ?fs example_event) = ?loaded"
    by (simp add: p load_user_settings_def read_json_def read_text_def Let_def)
  have w: "file_write ?E pth t = Written" for pth t by (simp add: example_env_fields)
  have d: "json_dumps ?E (JObj kvs) = ascii ''dict '' @ str_of_nat (length kvs)" for kvs
    by (simp add: example_env_fields)
  have k: "ascii ''lang'' \<noteq> ascii ''model''" by (simp add: ascii_def)
  have l: "map_of ?loaded (ascii ''lang'') = Some (JStr (ascii ''zh''))" by simp
  have "\<exists>saved.
     filter is_store_event (snd (snd (set_user_model ?E ?fs example_event (ascii ''gpt-4o''))))
       = [MakeDirs (USER_SETTINGS_DIR ?E), WriteJson ?path (json_dumps ?E (JObj saved))]
     \<and> map_of saved (ascii ''model'') = Some (JStr (ascii ''gpt-4o''))
     \<and> (\<forall>k. k \<noteq> ascii ''model'' \<longrightarrow> map_of saved k = map_of ?loaded k)
     \<and> filter (\<lambda>kv. fst kv \<noteq> ascii ''model'') saved
         = filter (\<lambda>kv. fst kv \<noteq> ascii ''model'') ?loaded
     \<and> (file_write ?E ?path (json_dumps ?E (JObj saved)) = Written
          \<longrightarrow> fst (snd (set_user_model ?E ?fs example_event (ascii ''gpt-4o''))) ?path
               = Some (Content (json_dumps ?E (JObj saved)))
             \<and> (\<forall>p. p \<noteq> ?path
                   \<longrightarrow> fst (snd (set_user_model ?E ?fs example_event (ascii ''gpt-4o''))) p = ?fs p))"
    using set_user_model_keeps_other_fields [OF h1 h2 [symmetric] p(2) [symmetric], of "ascii ''gpt-4o''"]
    by (rule conjunct2)
  then obtain saved where
    s1: "map_of saved (ascii ''model'') = Some (JStr (ascii ''gpt-4o''))"
    and s2: "\<forall>k. k \<noteq> ascii ''model'' \<longrightarrow> map_of saved k = map_of ?loaded k"
    and s3: "file_write ?E ?path (json_dumps ?E (JObj saved)) = Written
          \<longrightarrow> fst (snd (set_user_model ?E ?fs example_event (ascii ''gpt-4o''))) ?path
               = Some (Content (json_dumps ?E (JObj saved)))
             \<and> (\<forall>p. p \<noteq> ?path
                   \<longrightarrow> fst (snd (set_user_model ?E ?fs example_event (ascii ''gpt-4o''))) p = ?fs p)"
    by blast
  from s3 w have s4: "fst (snd (set_user_model ?E ?fs example_event (ascii ''gpt-4o''))) ?path
               = Some (Content (json_dumps ?E (JObj saved)))"
    by blast
  from s2 k have s5: "map_of saved (ascii ''lang'') = map_of ?loaded (ascii ''lang'')"
    by blast
  have "fst (snd (set_user_model ?E ?fs example_event (ascii ''gpt-4o''))) ?path
        = Some (Content (ascii ''dict '' @ str_of_nat (length saved)))
        \<and> map_of saved (ascii ''model'') = Some (JStr (ascii ''gpt-4o''))
        \<and> map_of saved (ascii ''lang'') = Some (JStr (ascii ''zh''))"
    using s1 s4 s5 l d by metis
  with h2 show ?thesis by blast
qed

section \<open>Message handlers\<close>

lemma get_user_model_quiet:
  "filter is_store_event (snd (get_user_model env fs event)) = []"
  using load_user_settings_quiet [of env fs event]
  by (auto simp: get_user_model_def Let_def case_prod_unfold split: option.splits json.splits)

lemma load_context_quiet:
  "filter is_store_event (snd (load_context env fs event)) = []"
  by (auto simp: load_context_def Let_def split: sum.splits json.splits)

lemma load_prompt_message_quiet:
  "filter is_store_event (snd (load_prompt_message env fs)) = []"
  by (auto simp: load_prompt_message_def Let_def split: option.splits sum.splits)

lemma build_messages_quiet:
  "filter is_store_event (snd (build_messages env fs history um)) = []"
  using load_prompt_message_quiet [of env fs]
  by (auto simp: build_messages_def split: prod.splits option.splits)

lemma call_openai_quiet:
  "filter is_store_event (snd (call_openai env messages model)) = []"
  by (auto simp: call_openai_def Let_def
      split: sum.splits prod.splits option.splits http_outcome.splits)

lemma build_image_part_quiet:
  "filter is_store_event (snd (build_image_part env seg)) = []"
  by (auto simp: build_image_part_def Let_def split: sum.splits prod.splits)

lemma scan_segments_quiet:
  "filter is_store_event (snd (snd (scan_segments env msg parts buf evs)))
     = filter is_store_event evs"
proof (induction msg arbitrary: parts buf evs)
  case Nil
  then show ?case by simp
next
  case (Cons seg rest)
  show ?case
    using Cons.IH build_image_part_quiet [of env seg]
    by (auto split: prod.splits option.splits)
qed

lemma build_user_message_quiet:
  "filter is_store_event (snd (build_user_message env msg)) = []"
  using scan_segments_quiet [of env msg "[]" "[]" "[]"]
  by (auto simp: build_user_message_def assemble_parts_def split: prod.splits list.splits part.splits)

lemma handler_is_respond:
  assumes "build_user_message env args = (Some um, evs0)"
    and "out = chat_handler env fs event args
         \<or> (out = tome_handler env fs event \<and> args = message event)"
  shows "out = respond Chat env fs event um evs0 \<or> out = respond Tome env fs event um evs0"
  using assms by (auto simp: chat_handler_def tome_handler_def)

lemma turn_reply_Inr:
  assumes "turn_reply env fs event um = Inr reply"
  obtains model where "fst (get_user_model env fs event) = Inr model"
    and "fst (call_openai env (fst (build_messages env fs (fst (load_context env fs event)) um))
                model) = Inr reply"
  using assms
  by (auto simp: turn_reply_def turn_model_def turn_messages_def split: sum.splits)

lemma turn_reply_Inl:
  assumes "turn_reply env fs event um = Inl e"
  shows "fst (get_user_model env fs event) = Inl e
       \<or> (\<exists>model. fst (get_user_model env fs event) = Inr model
            \<and> fst (call_openai env
                      (fst (build_messages env fs (fst (load_context env fs event)) um)) model)
                = Inl e)"
  using assms
  by (auto simp: turn_reply_def turn_model_def turn_messages_def split: sum.splits)

lemma respond_raises:
  assumes "turn_reply env fs event um = Inl e"
  shows "escaped (respond m env fs event um evs0) = Some e"
    and "store (respond m env fs event um evs0) = fs"
    and "filter is_store_event (trace (respond m env fs event um evs0))
           = filter is_store_event evs0"
proof -
  from turn_reply_Inl [OF assms]
  have "escaped (respond m env fs event um evs0) = Some e
      \<and> store (respond m env fs event um evs0) = fs
      \<and> filter is_store_event (trace (respond m env fs event um evs0))
           = filter is_store_event evs0"
  proof
    assume "fst (get_user_model env fs event) = Inl e"
    then show ?thesis
      using load_context_quiet [of env fs event]
        build_messages_quiet [of env fs "fst (load_context env fs event)" um]
        get_user_model_quiet [of env fs event]
      by (simp add: respond_def case_prod_unfold)
  next
    assume "\<exists>model. fst (get_user_model env fs event) = Inr model
            \<and> fst (call_openai env
                      (fst (build_messages env fs (fst (load_context env fs event)) um)) model)
                = Inl e"
    then obtain model where "fst (get_user_model env fs event) = Inr model"
      and "fst (call_openai env
                 (fst (build_messages env fs (fst (load_context env fs event)) um)) model)
           = Inl e"
      by blast
    then show ?thesis
      using load_context_quiet [of env fs event]
        build_messages_quiet [of env fs "fst (load_context env fs event)" um]
        get_user_model_quiet [of env fs event]
        call_openai_quiet [of env "fst (build_messages env fs (fst (load_context env fs event)) um)"
          model]
      by (simp add: respond_def case_prod_unfold)
  qed
  then show "escaped (respond m env fs event um evs0) = Some e"
    and "store (respond m env fs event um evs0) = fs"
    and "filter is_store_event (trace (respond m env fs event um evs0))
           = filter is_store_event evs0"
    by simp_all
qed

lemma respond_empty_reply:
  assumes "turn_reply env fs event um = Inr []"
  shows "store (respond m env fs event um evs0) = fs"
    and "escaped (respond m env fs event um evs0) = None"
    and "filter is_store_event (trace (respond m env fs event um evs0))
           = filter is_store_event evs0"
    and "Finish m [] \<in> set (trace (respond m env fs event um evs0))"
proof -
  from assms obtain model where g: "fst (get_user_model env fs event) = Inr model"
    and c: "fst (call_openai env
                   (fst (build_messages env fs (fst (load_context env fs event)) um)) model)
            = Inr []"
    by (rule turn_reply_Inr)
  show "store (respond m env fs event um evs0) = fs"
    and "escaped (respond m env fs event um evs0) = None"
    and "filter is_store_event (trace (respond m env fs event um evs0))
           = filter is_store_event evs0"
    and "Finish m [] \<in> set (trace (respond m env fs event um evs0))"
    using g c load_context_quiet [of env fs event]
      build_messages_quiet [of env fs "fst (load_context env fs event)" um]
      get_user_model_quiet [of env fs event]
      call_openai_quiet [of env "fst (build_messages env fs (fst (load_context env fs event)) um)"
        model]
    by (simp_all add: respond_def case_prod_unfold)
qed

lemma append_and_trim_length:
  "length (append_and_trim h um r) = min 20 (length h + 2)"
  by (auto simp: append_and_trim_def MAX_CONTEXT_MESSAGES_def Let_def)

lemma append_and_trim_suffix:
  "suffix (append_and_trim h um r) (h @ [um, assistant_turn r])"
proof -
  define xs where "xs = h @ [um, assistant_turn r]"
  have "append_and_trim h um r = drop (length xs - MAX_CONTEXT_MESSAGES) xs"
    by (simp add: append_and_trim_def Let_def xs_def del: drop_append)
  then show ?thesis
    unfolding xs_def [symmetric] by (simp add: suffix_drop)
qed

lemma append_and_trim_keeps_pair:
  "suffix [um, assistant_turn r] (append_and_trim h um r)"
proof -
  have "append_and_trim h um r = drop (length h + 2 - 20) h @ [um, assistant_turn r]"
    by (auto simp: append_and_trim_def MAX_CONTEXT_MESSAGES_def Let_def)
  then show ?thesis by (simp add: suffix_def)
qed

lemma respond_saves:
  assumes "turn_reply env fs event um = Inr reply" and "reply \<noteq> []"
    and "makedirs_ok env (CONTEXT_DIR env)"
  shows "file_write env (get_context_path env event)
           (json_dumps env (JArr (append_and_trim (fst (load_context env fs event)) um reply)))
           = Written
         \<Longrightarrow> store (respond m env fs event um evs0)
             = fs(get_context_path env event \<mapsto>
                   Content (json_dumps env
                     (JArr (append_and_trim (fst (load_context env fs event)) um reply))))"
proof -
  from assms(1) obtain model where g: "fst (get_user_model env fs event) = Inr model"
    and c: "fst (call_openai env
                   (fst (build_messages env fs (fst (load_context env fs event)) um)) model)
            = Inr reply"
    by (rule turn_reply_Inr)
  assume "file_write env (get_context_path env event)
           (json_dumps env (JArr (append_and_trim (fst (load_context env fs event)) um reply)))
           = Written"
  then show ?thesis
    using g c assms(2,3)
    by (simp add: respond_def case_prod_unfold save_context_def write_json_def Let_def)
qed

lemma respond_store_events:
  assumes "turn_reply env fs event um = Inr reply" and "reply \<noteq> []"
    and "makedirs_ok env (CONTEXT_DIR env)"
  shows "filter is_store_event (trace (respond m env fs event um evs0))
         = filter is_store_event evs0 @
           [MakeDirs (CONTEXT_DIR env),
            WriteJson (get_context_path env event)
              (json_dumps env (JArr (append_and_trim (fst (load_context env fs event)) um
                                   reply)))]"
proof -
  from assms(1) obtain model where g: "fst (get_user_model env fs event) = Inr model"
    and c: "fst (call_openai env
                   (fst (build_messages env fs (fst (load_context env fs event)) um)) model)
            = Inr reply"
    by (rule turn_reply_Inr)
  show ?thesis
    using g c assms(2,3) load_context_quiet [of env fs event]
      build_messages_quiet [of env fs "fst (load_context env fs event)" um]
      get_user_model_quiet [of env fs event]
      call_openai_quiet [of env "fst (build_messages env fs (fst (load_context env fs event)) um)"
        model]
    by (auto simp: respond_def case_prod_unfold save_context_def write_json_def Let_def
        split: write_outcome.splits)
qed

lemma notices_nonempty:
  "missing_key_notice \<noteq> []" "request_failed_notice \<noteq> []" "upstream_error_notice code \<noteq> []"
  by (simp_all add: missing_key_notice_def request_failed_notice_def upstream_error_notice_def)

lemma call_failed_notice:
  assumes "call_failed env messages model"
  shows "fst (call_openai env messages model) = Inr missing_key_notice
       \<or> fst (call_openai env messages model) = Inr request_failed_notice
       \<or> (\<exists>code. fst (call_openai env messages model) = Inr (upstream_error_notice code))"
  using assms
  by (auto simp: call_failed_def call_openai_def completion_outcome_def Let_def
      split: sum.splits prod.splits option.splits http_outcome.splits if_splits)

lemma call_failed_nonempty:
  assumes "call_failed env messages model"
  shows "\<exists>notice. fst (call_openai env messages model) = Inr notice \<and> notice \<noteq> []"
  using call_failed_notice [OF assms] notices_nonempty by auto

text \<open>
  Claim C3. In both handlers, when the completion call returns an empty reply, the files
  are what they were, no directory is made and no write is attempted, and no exception
  escapes.
\<close>

theorem empty_reply_skips_persistence:
  assumes "build_user_message env args = (Some um, evs0)"
    and "turn_reply env fs event um = Inr []"
    and "out = chat_handler env fs event args
         \<or> (out = tome_handler env fs event \<and> args = message event)"
  shows "store out = fs \<and> filter is_store_event (trace out) = [] \<and> escaped out = None"
proof -
  have q: "filter is_store_event evs0 = []"
    using build_user_message_quiet [of env args] assms(1) by simp
  from assms(3) have "out = respond Chat env fs event um evs0 \<or> out = respond Tome env fs event um evs0"
    using assms(1) by (auto simp: chat_handler_def tome_handler_def)
  then show ?thesis
    using respond_empty_reply [OF assms(2)] q by auto
qed

theorem empty_reply_skips_persistence_witness:
  "build_user_message (example_env\<lparr>http_post := \<lambda>url headers payload. Responded blank_completion\<rparr>)
        [text_segment (ascii ''hello'')]
     = (Some (user_turn (JStr (ascii ''hello''))), [])
   \<and> turn_reply (example_env\<lparr>http_post := \<lambda>url headers payload. Responded blank_completion\<rparr>)
        Map.empty example_event (user_turn (JStr (ascii ''hello''))) = Inr []
   \<and> store (chat_handler (example_env\<lparr>http_post := \<lambda>url headers payload. Responded blank_completion\<rparr>)
        Map.empty example_event [text_segment (ascii ''hello'')]) = Map.empty
   \<and> filter is_store_event (trace (chat_handler (example_env\<lparr>http_post := \<lambda>url headers payload. Responded blank_completion\<rparr>)
        Map.empty example_event [text_segment (ascii ''hello'')])) = []"
proof -
  let ?E = "example_env\<lparr>http_post := \<lambda>url headers payload. Responded blank_completion\<rparr>"
  have h1: "build_user_message ?E [text_segment (ascii ''hello'')]
     = (Some (user_turn (JStr (ascii ''hello''))), [])"
    by (simp add: assembler_defs strip_defs str_defs)
  have h2: "turn_reply ?E Map.empty example_event (user_turn (JStr (ascii ''hello''))) = Inr []"
    by (simp add: turn_defs store_defs call_defs example_env_def blank_completion_def
        strip_defs ascii_def)
  from empty_reply_skips_persistence [OF h1 h2, of "chat_handler ?E Map.empty example_event [text_segment (ascii ''hello'')]"]
    h1 h2 show ?thesis by simp
qed

text \<open>
  Claim C1. In both handlers, with a non-empty reply, the history kept after the two
  appends and the trim has at most \<open>MAX_CONTEXT_MESSAGES\<close> = 20 entries, namely
  \<open>min 20 (length history + 2)\<close>; it is a suffix of the loaded history followed by the
  user turn and the assistant turn \<open>{"role": "assistant", "content": reply}\<close> (the oldest
  entries go first, the order stays), and it ends with that new pair. It is the trimmed
  list that goes to the store: the only store events are the \<open>makedirs\<close> and the write
  of that list, and when the write goes through the session's file holds it.
\<close>

theorem history_window_after_turn:
  assumes "build_user_message env args = (Some um, evs0)"
    and "turn_reply env fs event um = Inr reply" and "reply \<noteq> []"
    and "out = chat_handler env fs event args
         \<or> (out = tome_handler env fs event \<and> args = message event)"
    and "history = fst (load_context env fs event)"
    and "kept = append_and_trim history um reply"
    and "assistant = JObj [(ascii ''role'', JStr (ascii ''assistant'')),
                           (ascii ''content'', JStr reply)]"
  shows "length kept \<le> MAX_CONTEXT_MESSAGES \<and> MAX_CONTEXT_MESSAGES = 20
    \<and> length kept = min 20 (length history + 2)
    \<and> suffix kept (history @ [um, assistant])
    \<and> suffix [um, assistant] kept
    \<and> (makedirs_ok env (CONTEXT_DIR env)
         \<longrightarrow> filter is_store_event (trace out)
               = [MakeDirs (CONTEXT_DIR env),
                  WriteJson (get_context_path env event) (json_dumps env (JArr kept))])
    \<and> (makedirs_ok env (CONTEXT_DIR env)
         \<and> file_write env (get_context_path env event) (json_dumps env (JArr kept)) = Written
         \<longrightarrow> store out = fs(get_context_path env event \<mapsto> Content (json_dumps env (JArr kept))))"
proof -
  have a: "assistant = assistant_turn reply"
    using assms(7) by (simp add: assistant_turn_def)
  have len: "length kept = min 20 (length history + 2)"
    using assms(6) by (simp add: append_and_trim_length)
  have suf: "suffix kept (history @ [um, assistant])"
    using assms(6) a by (simp add: append_and_trim_suffix)
  have pair: "suffix [um, assistant] kept"
    using assms(6) a by (simp add: append_and_trim_keeps_pair)
  have r: "out = respond Chat env fs event um evs0 \<or> out = respond Tome env fs event um evs0"
    by (rule handler_is_respond [OF assms(1) assms(4)])
  have tr: "makedirs_ok env (CONTEXT_DIR env)
         \<longrightarrow> filter is_store_event (trace out)
               = [MakeDirs (CONTEXT_DIR env),
                  WriteJson (get_context_path env event) (json_dumps env (JArr kept))]"
    using r respond_store_events [OF assms(2,3), of Chat evs0]
      respond_store_events [OF assms(2,3), of Tome evs0]
      build_user_message_quiet [of env args] assms(1) assms(5) assms(6)
    by auto
  have st: "makedirs_ok env (CONTEXT_DIR env)
         \<and> file_write env (get_context_path env event) (json_dumps env (JArr kept)) = Written
         \<longrightarrow> store out = fs(get_context_path env event \<mapsto> Content (json_dumps env (JArr kept)))"
    using r respond_saves [OF assms(2,3), of Chat evs0] respond_saves [OF assms(2,3), of Tome evs0]
      assms(5) assms(6)
    by auto
  from len suf pair tr st show ?thesis
    by (simp add: MAX_CONTEXT_MESSAGES_def)
qed

theorem history_window_after_turn_witness:
  "build_user_message
     (example_env\<lparr>http_post := \<lambda>url headers payload. Responded greeting_completion,
                  json_loads := \<lambda>t. Some (JArr (replicate 19 JNull))\<rparr>)
     [text_segment (ascii ''hello'')]
     = (Some (user_turn (JStr (ascii ''hello''))), [])
   \<and> turn_reply
       (example_env\<lparr>http_post := \<lambda>url headers payload. Responded greeting_completion,
                  json_loads := \<lambda>t. Some (JArr (replicate 19 JNull))\<rparr>)
       [ascii ''/bot/data/openai/42.json'' \<mapsto> Content (ascii ''old'')]
       example_event (user_turn (JStr (ascii ''hello'')))
     = Inr (ascii ''Hi there'')
   \<and> store (chat_handler
       (example_env\<lparr>http_post := \<lambda>url headers payload. Responded greeting_completion,
                  json_loads := \<lambda>t. Some (JArr (replicate 19 JNull))\<rparr>)
       [ascii ''/bot/data/openai/42.json'' \<mapsto> Content (ascii ''old'')]
       example_event [text_segment (ascii ''hello'')])
     = [ascii ''/bot/data/openai/42.json'' \<mapsto> Content (ascii ''list 20'')]"
proof -
  let ?E = "example_env\<lparr>http_post := \<lambda>url headers payload. Responded greeting_completion,
                  json_loads := \<lambda>t. Some (JArr (replicate 19 JNull))\<rparr>"
  let ?fs = "[ascii ''/bot/data/openai/42.json'' \<mapsto> Content (ascii ''old'')]"
  let ?um = "user_turn (JStr (ascii ''hello''))"
  let ?args = "[text_segment (ascii ''hello'')]"
  have c: "cwd ?E = ascii ''/bot''" by (simp add: example_env_fields)
  note p = example_paths [OF c]
  have ne: "ascii ''/bot/data/openai/users/42.json'' \<noteq> ascii ''/bot/data/openai/42.json''"
    by (simp add: ascii_def)
  have h0: "fst (load_context ?E ?fs example_event) = replicate 19 JNull"
    by (simp add: p load_context_def read_json_def read_text_def Let_def)
  have h1: "build_user_message ?E ?args = (Some ?um, [])"
    by (simp add: assembler_defs strip_defs str_defs)
  have h2: "turn_reply ?E ?fs example_event ?um = Inr (ascii ''Hi there'')"
    using ne
    by (simp add: turn_defs p store_defs call_defs example_env_fields greeting_completion_def
        strip_defs Let_def) (simp add: ascii_def is_space_def)
  have h3: "makedirs_ok ?E (CONTEXT_DIR ?E)" "\<And>t. file_write ?E (get_context_path ?E example_event) t = Written"
    by (simp_all add: example_env_fields)
  have h4: "ascii ''Hi there'' \<noteq> []" by (simp add: ascii_def)
  have s20: "ascii ''list '' @ str_of_nat 20 = ascii ''list 20''"
    by (simp add: str_of_nat.simps ascii_def)
  from history_window_after_turn [of ?E ?args ?um "[]" ?fs example_event "ascii ''Hi there''"
      "chat_handler ?E ?fs example_event ?args" "replicate 19 JNull"
      "append_and_trim (replicate 19 JNull) ?um (ascii ''Hi there'')"
      "JObj [(ascii ''role'', JStr (ascii ''assistant'')),
             (ascii ''content'', JStr (ascii ''Hi there''))]"]
    h0 h1 h2 h3 h4
  show ?thesis
    by (simp add: p example_env_fields append_and_trim_length s20)
qed

text \<open>
  Where \<open>_call_openai\<close> fails and answers with a notice (the three settings being
  there), the notice is one of three strings, none empty; both handlers then hand to the
  store a history whose last two entries are the user turn and
  \<open>{"role": "assistant", "content": notice}\<close>, and the session's file holds it when the
  write goes through.
\<close>

lemma failure_notice_is_persisted:
  assumes "build_user_message env args = (Some um, evs0)"
    and "turn_model env fs event = Inr model"
    and "call_failed env (turn_messages env fs event um) model"
    and "out = chat_handler env fs event args
         \<or> (out = tome_handler env fs event \<and> args = message event)"
  shows "\<exists>notice kept.
      turn_reply env fs event um = Inr notice \<and> notice \<noteq> []
      \<and> (notice = missing_key_notice \<or> notice = request_failed_notice
          \<or> (\<exists>code. notice = upstream_error_notice code))
      \<and> suffix [um, JObj [(ascii ''role'', JStr (ascii ''assistant'')),
                          (ascii ''content'', JStr notice)]] kept
      \<and> (makedirs_ok env (CONTEXT_DIR env)
           \<longrightarrow> filter is_store_event (trace out)
                 = [MakeDirs (CONTEXT_DIR env),
                    WriteJson (get_context_path env event) (json_dumps env (JArr kept))])
      \<and> (makedirs_ok env (CONTEXT_DIR env)
           \<and> file_write env (get_context_path env event) (json_dumps env (JArr kept)) = Written
           \<longrightarrow> store out (get_context_path env event)
                 = Some (Content (json_dumps env (JArr kept))))"
proof -
  from call_failed_nonempty [OF assms(3)] obtain notice
    where n: "fst (call_openai env (turn_messages env fs event um) model) = Inr notice"
      and ne: "notice \<noteq> []"
    by blast
  have tr: "turn_reply env fs event um = Inr notice"
    using n assms(2) by (simp add: turn_reply_def)
  have kind: "notice = missing_key_notice \<or> notice = request_failed_notice
          \<or> (\<exists>code. notice = upstream_error_notice code)"
    using call_failed_notice [OF assms(3)] n by auto
  let ?kept = "append_and_trim (fst (load_context env fs event)) um notice"
  have pair: "suffix [um, JObj [(ascii ''role'', JStr (ascii ''assistant'')),
                          (ascii ''content'', JStr notice)]] ?kept"
    using append_and_trim_keeps_pair [of um notice "fst (load_context env fs event)"]
    by (simp add: assistant_turn_def)
  have r: "out = respond Chat env fs event um evs0 \<or> out = respond Tome env fs event um evs0"
    by (rule handler_is_respond [OF assms(1) assms(4)])
  have ev: "makedirs_ok env (CONTEXT_DIR env)
           \<longrightarrow> filter is_store_event (trace out)
                 = [MakeDirs (CONTEXT_DIR env),
                    WriteJson (get_context_path env event) (json_dumps env (JArr ?kept))]"
    using r respond_store_events [OF tr ne, of Chat evs0] respond_store_events [OF tr ne, of Tome evs0]
      build_user_message_quiet [of env args] assms(1)
    by auto
  have st: "makedirs_ok env (CONTEXT_DIR env)
           \<and> file_write env (get_context_path env event) (json_dumps env (JArr ?kept)) = Written
           \<longrightarrow> store out (get_context_path env event)
                 = Some (Content (json_dumps env (JArr ?kept)))"
    using r respond_saves [OF tr ne, of Chat evs0] respond_saves [OF tr ne, of Tome evs0]
    by auto
  from tr ne kind pair ev st show ?thesis by blast
qed

text \<open>
  Claim C9 fails where the configuration has no API-key setting at all (the defect of
  claim C5): \<open>_call_openai\<close> raises \<open>AttributeError\<close> instead of returning a notice,
  the exception escapes the handler, and nothing is sent, appended or stored.
\<close>

theorem handler_absent_key_stores_nothing:
  "turn_reply (example_env\<lparr>openai_api_key := Unset\<rparr>) Map.empty example_event
     (user_turn (JStr (ascii ''hello''))) = Inl AttributeError
   \<and> chat_handler (example_env\<lparr>openai_api_key := Unset\<rparr>) Map.empty example_event
       [text_segment (ascii ''hello'')]
     = \<lparr>escaped = Some AttributeError, store = Map.empty, trace = []\<rparr>
   \<and> tome_handler (example_env\<lparr>openai_api_key := Unset\<rparr>) Map.empty example_event
     = \<lparr>escaped = Some AttributeError, store = Map.empty, trace = []\<rparr>"
proof -
  let ?E = "example_env\<lparr>openai_api_key := Unset\<rparr>"
  have h1: "build_user_message ?E [text_segment (ascii ''hello'')]
     = (Some (user_turn (JStr (ascii ''hello''))), [])"
    by (simp add: assembler_defs strip_defs str_defs)
  have h2: "call_openai ?E messages model = (Inl AttributeError, [])" for messages model
    by (rule call_openai_unset_raises) simp
  have h3: "respond m ?E Map.empty example_event (user_turn (JStr (ascii ''hello''))) []
     = \<lparr>escaped = Some AttributeError, store = Map.empty, trace = []\<rparr>" for m
    by (simp add: respond_def h2 store_defs example_env_fields)
  have h4: "turn_reply ?E Map.empty example_event (user_turn (JStr (ascii ''hello'')))
     = Inl AttributeError"
    by (simp add: turn_defs h2 store_defs example_env_fields)
  from h1 h3 h4 show ?thesis
    by (simp add: chat_handler_def tome_handler_def example_event_def)
qed

end
